theory Spec2Isabelle
  imports Complex_Main "HOL-Library.DAList" "HOL-Library.Word"
begin

section \<open>Telemetry data shared by the services\<close>

text \<open>
  The services are thin HTTP handlers around the OpenTelemetry SDK. A span is modelled by
  the data the handlers read and write: name, kind, parent, attributes, events, status and
  whether it has ended. Timestamps are not modelled.
\<close>

datatype span_kind =
  SpanKindServer | SpanKindClient | SpanKindInternal | SpanKindProducer | SpanKindConsumer

datatype status_code = Unset | Ok | Error

datatype attr =
  AString string | AInt int | ABool bool | AFloat real | AStringSlice "string list"

type_synonym attrs = "(string \<times> attr) list"

record span =
  sp_name :: string
  sp_kind :: span_kind
  sp_parent :: "string option"
  sp_attributes :: attrs
  sp_events :: "(string \<times> attrs) list"
  sp_status :: status_code
  sp_ended :: bool

text \<open>
  Modelled from the spec: the span recorder of the tracing SDK is not part of the
  repository. \<open>start_span\<close> records name, kind and parent, with no attribute, no event and
  the status unset; \<open>set_attributes\<close> and \<open>add_event\<close> append; \<open>end\<close> finalises the span
  and is idempotent. A later attribute with the same key overrides an earlier one when the
  list is read as a mapping.
\<close>

definition tracer_Start :: "string option \<Rightarrow> string \<Rightarrow> span_kind \<Rightarrow> span" where
  "tracer_Start p n k =
     \<lparr>sp_name = n, sp_kind = k, sp_parent = p, sp_attributes = [], sp_events = [],
      sp_status = Unset, sp_ended = False\<rparr>"

definition SetAttributes :: "span \<Rightarrow> attrs \<Rightarrow> span" where
  "SetAttributes s kvs = s\<lparr>sp_attributes := sp_attributes s @ kvs\<rparr>"

definition AddEvent :: "span \<Rightarrow> string \<Rightarrow> attrs \<Rightarrow> span" where
  "AddEvent s n kvs = s\<lparr>sp_events := sp_events s @ [(n, kvs)]\<rparr>"

definition SetStatus :: "span \<Rightarrow> status_code \<Rightarrow> span" where
  "SetStatus s c = s\<lparr>sp_status := c\<rparr>"

definition End :: "span \<Rightarrow> span" where
  "End s = s\<lparr>sp_ended := True\<rparr>"

text \<open>
  \<open>Span.RecordError\<close> is a call into the SDK as well. The handlers below take it as a
  parameter, so that every statement about a span status says what it needs from it.
  \<open>record_error_spec\<close> is the contract the specification gives for it.
\<close>

type_synonym record_error = "span \<Rightarrow> string \<Rightarrow> span"

text \<open>
  Modelled from the spec: \<open>record_error(err)\<close> sets status = error and attaches an
  exception attribute.
\<close>

definition record_error_spec :: record_error where
  "record_error_spec s err =
     (SetStatus s Error)\<lparr>sp_attributes := sp_attributes s @ [(''exception'', AString err)]\<rparr>"

text \<open>
  The \<open>RecordError\<close> of the Go SDK (package \<open>go.opentelemetry.io/otel/trace\<close>, not part
  of the repository), as its API documents it: the error is recorded as an exception event
  on the span, and the status of the span is not changed; a call of \<open>SetStatus\<close> is needed
  for that. The attribute \<open>exception.type\<close> of the event is left out.
\<close>

definition sdk_RecordError :: record_error where
  "sdk_RecordError s err = AddEvent s ''exception'' [(''exception.message'', AString err)]"

datatype level = Info | Warn | Err

type_synonym log_line = "level \<times> string"

subsection \<open>Decimal formatting\<close>

fun show_nat :: "nat \<Rightarrow> string" where
  "show_nat n =
     (if n < 10 then [''0123456789'' ! n]
      else show_nat (n div 10) @ [''0123456789'' ! (n mod 10)])"

declare show_nat.simps [simp del]

text \<open>
  Amounts of money are \<open>float64(n) / 100.0\<close> for an integer \<open>n\<close> in the source. The model
  keeps the integer \<open>n\<close> (hundredths); \<open>fmt_2f\<close> is \<open>%.2f\<close> on such a value.
\<close>

definition fmt_2f :: "nat \<Rightarrow> string" where
  "fmt_2f c =
     show_nat (c div 100) @ ''.'' @ show_nat ((c mod 100) div 10) @ show_nat (c mod 10)"

definition hundredths :: "nat \<Rightarrow> attr" where
  "hundredths c = AFloat (real c / 100)"

text \<open>\<open>rand.Intn(n)\<close> on the generator output \<open>r\<close>: a value in \<open>[0, n)\<close>.\<close>

definition rand_Intn :: "nat \<Rightarrow> nat \<Rightarrow> nat" where
  "rand_Intn n r = r mod n"

subsection \<open>HTTP messages\<close>

record request =
  req_method :: string
  req_url :: string

datatype jvalue = JString string | JNumber int | JBool bool

type_synonym json = "(string \<times> jvalue) list"

text \<open>
  The outcome of \<open>client.Do\<close>: a transport error, or a response with a status code and a
  body. A body is modelled by the JSON object it denotes; a body that does not parse is the
  empty object, as \<open>json.Unmarshal\<close> then leaves the zero values in place.
\<close>

datatype response = TransportError string | Response nat json

definition json_string :: "json \<Rightarrow> string \<Rightarrow> string" where
  "json_string b k = (case map_of b k of Some (JString s) \<Rightarrow> s | _ \<Rightarrow> '''')"

definition json_int :: "json \<Rightarrow> string \<Rightarrow> int" where
  "json_int b k = (case map_of b k of Some (JNumber n) \<Rightarrow> n | _ \<Rightarrow> 0)"

text \<open>What a handler writes back: status code, content type (if set) and body text.\<close>

record http_response =
  code :: nat
  content_type :: "string option"
  body :: string

section \<open>Configuration (go/config/config.go)\<close>

record config =
  FrontendURL :: string
  PaymentURL :: string
  ShippingURL :: string
  CheckoutURL :: string
  CartURL :: string
  ProductCatalogURL :: string
  RecommendationURL :: string
  AdURL :: string
  EmailURL :: string
  CurrencyURL :: string
  AccountingURL :: string
  FraudDetectionURL :: string
  QuoteURL :: string

definition getEnv :: "(string \<rightharpoonup> string) \<Rightarrow> string \<Rightarrow> string \<Rightarrow> string" where
  "getEnv env key fallback =
     (case env key of Some v \<Rightarrow> if v \<noteq> '''' then v else fallback | None \<Rightarrow> fallback)"

definition load_config :: "(string \<rightharpoonup> string) \<Rightarrow> config" where
  "load_config env =
     \<lparr>FrontendURL = getEnv env ''FRONTEND_URL'' ''http://localhost:8080'',
      PaymentURL = getEnv env ''PAYMENT_URL'' ''http://localhost:8081'',
      ShippingURL = getEnv env ''SHIPPING_URL'' ''http://localhost:8082'',
      CheckoutURL = getEnv env ''CHECKOUT_URL'' ''http://localhost:8083'',
      CartURL = getEnv env ''CART_URL'' ''http://localhost:8084'',
      ProductCatalogURL = getEnv env ''PRODUCT_CATALOG_URL'' ''http://localhost:8085'',
      RecommendationURL = getEnv env ''RECOMMENDATION_URL'' ''http://localhost:8086'',
      AdURL = getEnv env ''AD_URL'' ''http://localhost:8087'',
      EmailURL = getEnv env ''EMAIL_URL'' ''http://localhost:8088'',
      CurrencyURL = getEnv env ''CURRENCY_URL'' ''http://localhost:8089'',
      AccountingURL = getEnv env ''ACCOUNTING_URL'' ''http://localhost:8091'',
      FraudDetectionURL = getEnv env ''FRAUD_DETECTION_URL'' ''http://localhost:8092'',
      QuoteURL = getEnv env ''QUOTE_URL'' ''http://localhost:8094''\<rparr>"

section \<open>Product table (product catalog)\<close>

record product =
  ID :: string
  Name :: string

text \<open>The description, price and categories of a product are not read by the code below.\<close>

definition products :: "product list" where
  "products =
     [\<lparr>ID = ''OLJCESPC7Z'', Name = ''Sunglasses''\<rparr>,
      \<lparr>ID = ''66VCHSJNUP'', Name = ''Tank Top''\<rparr>,
      \<lparr>ID = ''1YMWWN1N4O'', Name = ''Watch''\<rparr>,
      \<lparr>ID = ''L9ECAV7KIM'', Name = ''Loafers''\<rparr>,
      \<lparr>ID = ''2ZYFJ3GM2N'', Name = ''Hairdryer''\<rparr>,
      \<lparr>ID = ''0PUK6V6EV0'', Name = ''Candle Holder''\<rparr>,
      \<lparr>ID = ''LS4PSXUNUM'', Name = ''Salt Shaker''\<rparr>,
      \<lparr>ID = ''9SIQT8TOJO'', Name = ''Bamboo Glass Jar''\<rparr>,
      \<lparr>ID = ''6E92ZMYYFZ'', Name = ''Mug''\<rparr>]"

definition GetProductID :: "nat \<Rightarrow> string" where
  "GetProductID r = ID (products ! rand_Intn (length products) r)"

section \<open>Checkout orchestrator (go/services/checkout.go)\<close>

text \<open>
  One call of \<open>placeOrder\<close> is one transaction. The record below collects what the
  transaction leaves behind: the root span, the spans started under it by
  \<open>checkoutTracer\<close> (in the order they were started), the outbound HTTP requests in the
  order they were sent, the log lines and the metric samples.
\<close>

record txn =
  root :: span
  children :: "span list"
  calls :: "request list"
  logs :: "log_line list"
  metrics :: "(string \<times> (string \<times> string) list) list"

text \<open>
  The network is a parameter: \<open>net i req\<close> is the outcome of the request \<open>req\<close> when
  it is the outbound call number \<open>i\<close> of the transaction (counted from 0).
\<close>

type_synonym net = "nat \<Rightarrow> request \<Rightarrow> response"

definition client_Do :: "net \<Rightarrow> request \<Rightarrow> txn \<Rightarrow> response \<times> txn" where
  "client_Do nw req t = (nw (length (calls t)) req, t\<lparr>calls := calls t @ [req]\<rparr>)"

definition log_line :: "level \<Rightarrow> string \<Rightarrow> txn \<Rightarrow> txn" where
  "log_line l m t = t\<lparr>logs := logs t @ [(l, m)]\<rparr>"

definition end_child :: "span \<Rightarrow> txn \<Rightarrow> txn" where
  \<comment> \<open>the deferred \<open>span.End()\<close> of a step: the finished span joins the trace\<close>
  "end_child s t = t\<lparr>children := children t @ [End s]\<rparr>"

definition on_root :: "(span \<Rightarrow> span) \<Rightarrow> txn \<Rightarrow> txn" where
  "on_root f t = t\<lparr>root := f (root t)\<rparr>"

text \<open>
  The values drawn from \<open>math/rand\<close> and \<open>uuid\<close> during one transaction are parameters.
\<close>

record rnd =
  r_user :: nat
  r_currency :: nat
  r_order_id :: string
  r_product :: "nat \<Rightarrow> nat"
  r_total :: nat
  r_shipping :: nat
  r_category :: nat

record orderPrep =
  itemCount :: nat
  total :: nat
  shippingCost :: nat
  productIDs :: "string list"

text \<open>The context handed to \<open>placeOrder\<close>: the span it carries, if any, and the baggage.\<close>

record ctx =
  ctx_span :: "span option"
  ctx_baggage :: "(string \<times> string) list"

definition bag_Member :: "ctx \<Rightarrow> string \<Rightarrow> string" where
  "bag_Member c k = (case map_of (ctx_baggage c) k of Some v \<Rightarrow> v | None \<Rightarrow> '''')"

definition randomCurrency :: "nat \<Rightarrow> string" where
  "randomCurrency r = [''USD'', ''EUR'', ''GBP'', ''JPY'', ''CAD''] ! rand_Intn 5 r"

subsection \<open>Cart sub-steps\<close>

definition addToCart :: "config \<Rightarrow> net \<Rightarrow> string \<Rightarrow> string \<Rightarrow> txn \<Rightarrow> string option \<times> txn" where
  "addToCart cfg nw userID productID t =
     (let t = log_line Info ''AddItem'' t;
          url = CartURL cfg @ ''/cart/add?user_id='' @ userID @ ''&product_id='' @ productID;
          (resp, t) = client_Do nw \<lparr>req_method = ''POST'', req_url = url\<rparr> t
      in case resp of
           TransportError e \<Rightarrow> (Some e, log_line Err ''AddItem failed'' t)
         | Response c b \<Rightarrow> (None, t))"

definition getCart :: "config \<Rightarrow> net \<Rightarrow> string \<Rightarrow> txn \<Rightarrow> (string + int) \<times> txn" where
  "getCart cfg nw userID t =
     (let t = log_line Info ''GetCart'' t;
          url = CartURL cfg @ ''/cart?user_id='' @ userID;
          (resp, t) = client_Do nw \<lparr>req_method = ''GET'', req_url = url\<rparr> t
      in case resp of
           TransportError e \<Rightarrow> (Inl e, log_line Err ''GetCart failed'' t)
         | Response c b \<Rightarrow> (Inr (json_int b ''items_count''), log_line Info ''GetCart result'' t))"

definition emptyCart :: "config \<Rightarrow> net \<Rightarrow> string \<Rightarrow> txn \<Rightarrow> string option \<times> txn" where
  "emptyCart cfg nw userID t =
     (let t = log_line Info ''EmptyCart'' t;
          url = CartURL cfg @ ''/cart/empty?user_id='' @ userID;
          (resp, t) = client_Do nw \<lparr>req_method = ''POST'', req_url = url\<rparr> t
      in case resp of
           TransportError e \<Rightarrow> (Some e, log_line Err ''EmptyCart failed'' t)
         | Response c b \<Rightarrow> (None, t))"

text \<open>
  The loop \<open>for i := 0; i < itemCount; i++\<close> of \<open>prepareOrderItems\<close>; the sixth argument
  is the number of iterations left.
\<close>

fun addItems ::
  "config \<Rightarrow> net \<Rightarrow> string \<Rightarrow> (nat \<Rightarrow> nat) \<Rightarrow> nat \<Rightarrow> nat \<Rightarrow> string list \<Rightarrow> txn \<Rightarrow> string list \<times> txn"
where
  "addItems cfg nw userID draw i 0 pids t = (pids, t)"
| "addItems cfg nw userID draw i (Suc k) pids t =
     (let productID = GetProductID (draw i);
          pids = pids @ [productID];
          (err, t) = addToCart cfg nw userID productID t;
          t = (case err of Some e \<Rightarrow> log_line Warn ''Failed to add item to cart'' t | None \<Rightarrow> t)
      in addItems cfg nw userID draw (Suc i) k pids t)"

definition prepareOrderItems ::
  "config \<Rightarrow> net \<Rightarrow> rnd \<Rightarrow> string \<Rightarrow> string \<Rightarrow> txn \<Rightarrow> (string + orderPrep) \<times> txn"
where
  "prepareOrderItems cfg nw rn userID currency t =
     (let span = tracer_Start (Some (sp_name (root t)))
                   ''prepareOrderItemsAndShippingQuoteFromCart'' SpanKindInternal;
          t = log_line Info ''PrepareOrderItems started'' t;
          span = SetAttributes span
                   [(''app.user.id'', AString userID), (''app.user.currency'', AString currency)];
          n = 3;
          (pids, t) = addItems cfg nw userID (r_product rn) 0 n [] t;
          span = AddEvent span ''items_added_to_cart'' [(''app.cart.items.count'', AInt (int n))];
          (cart, t) = getCart cfg nw userID t;
          t = (case cart of Inl e \<Rightarrow> log_line Warn ''Failed to get cart'' t | Inr m \<Rightarrow> t);
          cartItems = (case cart of Inl e \<Rightarrow> 0 | Inr m \<Rightarrow> m);
          span = AddEvent span ''cart_retrieved''
                   [(''app.user.id'', AString userID), (''app.cart.items.count'', AInt cartItems)];
          tot = rand_Intn 50000 (r_total rn) + 1000;
          ship = rand_Intn 1000 (r_shipping rn) + 100;
          (err, t) = emptyCart cfg nw userID t;
          t = (case err of Some e \<Rightarrow> log_line Warn ''Failed to empty cart'' t | None \<Rightarrow> t);
          span = AddEvent span ''cart_emptied'' []
      in (Inr \<lparr>itemCount = n, total = tot, shippingCost = ship, productIDs = pids\<rparr>,
          end_child span t))"

subsection \<open>Auxiliary steps\<close>

fun fetchProducts :: "config \<Rightarrow> net \<Rightarrow> string list \<Rightarrow> txn \<Rightarrow> txn" where
  "fetchProducts cfg nw [] t = t"
| "fetchProducts cfg nw (productID # rest) t =
     (let t = log_line Info ''FetchProduct'' t;
          url = ProductCatalogURL cfg @ ''/products/'' @ productID;
          (resp, t) = client_Do nw \<lparr>req_method = ''GET'', req_url = url\<rparr> t;
          t = (case resp of
                 TransportError e \<Rightarrow> log_line Warn ''FetchProduct failed'' t
               | Response c b \<Rightarrow> t)
      in fetchProducts cfg nw rest t)"

definition getProductDetails :: "config \<Rightarrow> net \<Rightarrow> string list \<Rightarrow> txn \<Rightarrow> txn" where
  "getProductDetails cfg nw pids t =
     (let span = tracer_Start (Some (sp_name (root t))) ''getProductDetails'' SpanKindClient;
          t = log_line Info ''GetProductDetails'' t;
          span = SetAttributes span
                   [(''app.products.count'', AInt (int (length pids))),
                    (''app.product.ids'', AStringSlice pids)];
          t = fetchProducts cfg nw pids t
      in end_child span t)"

definition getCurrencyConversion :: "config \<Rightarrow> net \<Rightarrow> string \<Rightarrow> nat \<Rightarrow> txn \<Rightarrow> txn" where
  "getCurrencyConversion cfg nw currency amount t =
     (let span = tracer_Start (Some (sp_name (root t))) ''getCurrencyConversion'' SpanKindClient;
          t = log_line Info ''GetCurrencyConversion'' t;
          span = SetAttributes span
                   [(''app.currency.from'', AString ''USD''), (''app.currency.to'', AString currency),
                    (''app.currency.amount'', hundredths amount)];
          url = CurrencyURL cfg @ ''/convert?from=USD&to='' @ currency @ ''&amount='' @ fmt_2f amount;
          (resp, t) = client_Do nw \<lparr>req_method = ''GET'', req_url = url\<rparr> t
      in case resp of
           TransportError e \<Rightarrow> end_child span (log_line Warn ''GetCurrencyConversion failed'' t)
         | Response c b \<Rightarrow> end_child span t)"

definition getRecommendations :: "config \<Rightarrow> net \<Rightarrow> string \<Rightarrow> string list \<Rightarrow> txn \<Rightarrow> txn" where
  "getRecommendations cfg nw userID pids t =
     (let span = tracer_Start (Some (sp_name (root t))) ''getRecommendations'' SpanKindClient;
          t = log_line Info ''GetRecommendations'' t;
          span = SetAttributes span
                   [(''app.user.id'', AString userID), (''app.product.ids'', AStringSlice pids)];
          url = RecommendationURL cfg @ ''/recommendations?user_id='' @ userID;
          (resp, t) = client_Do nw \<lparr>req_method = ''GET'', req_url = url\<rparr> t
      in case resp of
           TransportError e \<Rightarrow> end_child span (log_line Warn ''GetRecommendations failed'' t)
         | Response c b \<Rightarrow> end_child span t)"

definition getAds :: "config \<Rightarrow> net \<Rightarrow> nat \<Rightarrow> txn \<Rightarrow> txn" where
  "getAds cfg nw r t =
     (let span = tracer_Start (Some (sp_name (root t))) ''getAds'' SpanKindClient;
          category = [''clothing'', ''electronics'', ''home'', ''outdoor''] ! rand_Intn 4 r;
          t = log_line Info ''GetAds'' t;
          span = SetAttributes span [(''app.ads.category'', AString category)];
          url = AdURL cfg @ ''/ads?category='' @ category;
          (resp, t) = client_Do nw \<lparr>req_method = ''GET'', req_url = url\<rparr> t
      in case resp of
           TransportError e \<Rightarrow> end_child span (log_line Warn ''GetAds failed'' t)
         | Response c b \<Rightarrow> end_child span t)"

subsection \<open>Saga steps\<close>

definition chargeCard :: "config \<Rightarrow> net \<Rightarrow> nat \<Rightarrow> string \<Rightarrow> txn \<Rightarrow> (string + string) \<times> txn" where
  "chargeCard cfg nw amount currency t =
     (let span = tracer_Start (Some (sp_name (root t))) ''chargeCard'' SpanKindInternal;
          t = log_line Info ''ChargeCard'' t;
          span = SetAttributes span
                   [(''saga.step'', AString ''payment''), (''payment.amount'', hundredths amount),
                    (''payment.currency'', AString currency)];
          (resp, t) = client_Do nw \<lparr>req_method = ''POST'', req_url = PaymentURL cfg @ ''/charge''\<rparr> t
      in case resp of
           TransportError e \<Rightarrow> (Inl e, end_child span (log_line Err ''ChargeCard failed'' t))
         | Response c b \<Rightarrow>
             if c \<noteq> 200
             then (Inl (''payment service returned '' @ show_nat c),
                   end_child span (log_line Err ''ChargeCard failed'' t))
             else let txID = json_string b ''transaction_id'';
                      t = log_line Info ''ChargeCard success'' t;
                      span = SetAttributes span [(''payment.transaction.id'', AString txID)]
                  in (Inr txID, end_child span t))"

definition shipOrder :: "config \<Rightarrow> net \<Rightarrow> nat \<Rightarrow> txn \<Rightarrow> (string + string) \<times> txn" where
  "shipOrder cfg nw n t =
     (let span = tracer_Start (Some (sp_name (root t))) ''shipOrder'' SpanKindInternal;
          t = log_line Info ''ShipOrder'' t;
          span = SetAttributes span
                   [(''saga.step'', AString ''shipping''), (''shipping.items.count'', AInt (int n))];
          (resp, t) = client_Do nw \<lparr>req_method = ''POST'', req_url = ShippingURL cfg @ ''/ship''\<rparr> t
      in case resp of
           TransportError e \<Rightarrow> (Inl e, end_child span (log_line Err ''ShipOrder failed'' t))
         | Response c b \<Rightarrow>
             if c \<noteq> 200
             then (Inl (''shipping service returned '' @ show_nat c),
                   end_child span (log_line Err ''ShipOrder failed'' t))
             else let trackingID = json_string b ''tracking_id'';
                      t = log_line Info ''ShipOrder success'' t;
                      span = SetAttributes span [(''shipping.tracking.id'', AString trackingID)]
                  in (Inr trackingID, end_child span t))"

definition sendOrderConfirmation ::
  "config \<Rightarrow> net \<Rightarrow> string \<Rightarrow> string \<Rightarrow> txn \<Rightarrow> string option \<times> txn"
where
  "sendOrderConfirmation cfg nw orderID userID t =
     (let span = tracer_Start (Some (sp_name (root t))) ''sendOrderConfirmation'' SpanKindInternal;
          t = log_line Info ''SendOrderConfirmation'' t;
          span = SetAttributes span
                   [(''saga.step'', AString ''email''), (''app.order.id'', AString orderID),
                    (''app.user.id'', AString userID)];
          (resp, t) = client_Do nw \<lparr>req_method = ''POST'', req_url = EmailURL cfg @ ''/send''\<rparr> t
      in case resp of
           TransportError e \<Rightarrow>
             (Some e, end_child span (log_line Err ''SendOrderConfirmation failed'' t))
         | Response c b \<Rightarrow>
             if c \<noteq> 200
             then (Some (''email service returned '' @ show_nat c),
                   end_child span (log_line Err ''SendOrderConfirmation failed'' t))
             else (None, end_child span (log_line Info ''SendOrderConfirmation success'' t)))"

definition publishToKafka :: "config \<Rightarrow> net \<Rightarrow> string \<Rightarrow> txn \<Rightarrow> txn" where
  "publishToKafka cfg nw orderID t =
     (let span = SetAttributes
                   (tracer_Start (Some (sp_name (root t))) ''orders publish'' SpanKindProducer)
                   [(''messaging.system'', AString ''kafka''),
                    (''messaging.destination.name'', AString ''orders''),
                    (''messaging.operation.type'', AString ''publish''),
                    (''messaging.kafka.destination.partition'', AString ''0''),
                    (''app.order.id'', AString orderID)];
          t = log_line Info ''PublishToKafka'' t;
          (resp, t) = client_Do nw
                        \<lparr>req_method = ''POST'', req_url = AccountingURL cfg @ ''/consume''\<rparr> t;
          (resp, t) = client_Do nw
                        \<lparr>req_method = ''POST'', req_url = FraudDetectionURL cfg @ ''/consume''\<rparr> t
      in end_child span t)"

subsection \<open>placeOrder\<close>

text \<open>
  \<open>placeOrder\<close> returns nothing in the source; the model returns the transaction record.
  In batch mode (no valid span in the context) it starts its own root span and ends it on
  return (\<open>defer span.End()\<close>); otherwise it works on the span of the context.
\<close>

definition userID_of :: "rnd \<Rightarrow> string" where
  "userID_of rn = ''user-'' @ show_nat (rand_Intn 10000 (r_user rn))"

definition placeOrder :: "record_error \<Rightarrow> config \<Rightarrow> net \<Rightarrow> rnd \<Rightarrow> ctx \<Rightarrow> txn" where
  "placeOrder RecordError cfg nw rn c =
     (let batch = (ctx_span c = None);
          span = (case ctx_span c of
                    Some s \<Rightarrow> s
                  | None \<Rightarrow> tracer_Start None ''PlaceOrder'' SpanKindServer);
          return = (\<lambda>t. if batch then on_root End t else t);
          userID = userID_of rn;
          currency = randomCurrency (r_currency rn);
          orderID = r_order_id rn;
          span = SetAttributes span
                   [(''app.user.id'', AString userID), (''app.user.currency'', AString currency)];
          span = (if bag_Member c ''synthetic_request'' = ''true''
                  then SetAttributes span [(''app.synthetic'', ABool True)] else span);
          span = (if bag_Member c ''session.id'' \<noteq> ''''
                  then SetAttributes span [(''session.id'', AString (bag_Member c ''session.id''))]
                  else span);
          t = \<lparr>root = span, children = [], calls = [], logs = [], metrics = []\<rparr>;
          t = log_line Info ''PlaceOrder started'' t;
          (prep_res, t) = prepareOrderItems cfg nw rn userID currency t
      in case prep_res of
           Inl err \<Rightarrow>
             return (log_line Err ''Prepare failed'' (on_root (\<lambda>s. RecordError s err) t))
         | Inr prep \<Rightarrow>
             let t = on_root (\<lambda>s. AddEvent s ''prepared''
                                [(''app.order.items.count'', AInt (int (itemCount prep)))]) t;
                 t = getProductDetails cfg nw (productIDs prep) t;
                 t = on_root (\<lambda>s. AddEvent s ''product_details_fetched'' []) t;
                 t = getCurrencyConversion cfg nw currency (total prep) t;
                 t = on_root (\<lambda>s. AddEvent s ''currency_converted'' []) t;
                 t = getRecommendations cfg nw userID (productIDs prep) t;
                 t = on_root (\<lambda>s. AddEvent s ''recommendations_fetched'' []) t;
                 t = getAds cfg nw (r_category rn) t;
                 t = on_root (\<lambda>s. AddEvent s ''ads_fetched'' []) t;
                 (charge_res, t) = chargeCard cfg nw (total prep) currency t
             in case charge_res of
                  Inl err \<Rightarrow>
                    return (log_line Err ''Payment failed'' (on_root (\<lambda>s. RecordError s err) t))
                | Inr txID \<Rightarrow>
                    let t = on_root (\<lambda>s. AddEvent s ''charged''
                                       [(''app.payment.transaction.id'', AString txID)]) t;
                        (ship_res, t) = shipOrder cfg nw (itemCount prep) t
                    in case ship_res of
                         Inl err \<Rightarrow>
                           return (log_line Err ''Shipping failed''
                                     (on_root (\<lambda>s. RecordError s err) t))
                       | Inr trackingID \<Rightarrow>
                           let t = on_root (\<lambda>s. AddEvent s ''shipped''
                                     [(''app.shipping.tracking.id'', AString trackingID)]) t;
                               (err, t) = sendOrderConfirmation cfg nw orderID userID t;
                               t = (case err of
                                      Some e \<Rightarrow> log_line Warn ''Email failed'' t
                                    | None \<Rightarrow> t);
                               t = on_root (\<lambda>s. AddEvent s ''email_sent'' []) t;
                               t = publishToKafka cfg nw orderID t;
                               t = on_root (\<lambda>s. AddEvent s ''published_to_kafka''
                                     [(''messaging.destination.name'', AString ''orders'')]) t;
                               t = on_root (\<lambda>s. SetAttributes s
                                     [(''app.order.id'', AString orderID),
                                      (''app.order.amount'', hundredths (total prep)),
                                      (''app.shipping.amount'', hundredths (shippingCost prep)),
                                      (''app.order.items.count'', AInt (int (itemCount prep))),
                                      (''app.shipping.tracking.id'', AString trackingID)]) t;
                               t = t\<lparr>metrics := metrics t @
                                     [(''app.checkout.orders_total'',
                                       [(''currency'', currency), (''status'', ''success'')]),
                                      (''app.checkout.latency'', [(''currency'', currency)])]\<rparr>;
                               t = log_line Info ''Order placed successfully'' t
                           in return t)"

text \<open>
  The HTTP entry point of \<open>InitCheckoutServer\<close>. Modelled from the spec: the instrumented
  handler (not part of the repository) extracts the context of the inbound request, starts
  a server span named after the operation, runs the handler with that span in the context
  and ends the span.
\<close>

definition checkout_handler ::
  "record_error \<Rightarrow> config \<Rightarrow> net \<Rightarrow> rnd \<Rightarrow> (string \<times> string) list \<Rightarrow> http_response \<times> txn"
where
  \<open>checkout_handler RecordError cfg nw rn baggage =
     (let span = tracer_Start None ''PlaceOrder'' SpanKindServer;
          t = placeOrder RecordError cfg nw rn \<lparr>ctx_span = Some span, ctx_baggage = baggage\<rparr>
      in (\<lparr>code = 200, content_type = Some ''application/json'',
           body = ''{"status": "order_placed"}''\<rparr>,
          on_root End t))\<close>

text \<open>One iteration of the loop of \<open>RunCheckoutService\<close>: the background context.\<close>

definition batch_order :: "record_error \<Rightarrow> config \<Rightarrow> net \<Rightarrow> rnd \<Rightarrow> txn" where
  "batch_order RecordError cfg nw rn =
     placeOrder RecordError cfg nw rn \<lparr>ctx_span = None, ctx_baggage = []\<rparr>"

subsection \<open>Observations on a transaction\<close>

text \<open>
  The shape of the span tree under the root (name, kind and parent of each span started by
  a step, in order), the names alone, and the two outcomes a caller of a step tells apart:
  a call fails when the transport fails or the status is not 200.
\<close>

definition tree :: "txn \<Rightarrow> (string \<times> span_kind \<times> string option) list" where
  "tree t = map (\<lambda>s. (sp_name s, sp_kind s, sp_parent s)) (children t)"

definition span_names :: "txn \<Rightarrow> string list" where
  "span_names t = map sp_name (children t)"

definition failed :: "response \<Rightarrow> bool" where
  "failed r = (case r of TransportError e \<Rightarrow> True | Response c b \<Rightarrow> c \<noteq> 200)"

text \<open>
  A transaction succeeded when \<open>placeOrder\<close> reached its end, where it counts the order
  with the label \<open>status = success\<close>.
\<close>

definition succeeded :: "txn \<Rightarrow> bool" where
  "succeeded t = (''app.checkout.orders_total'' \<in> set (map fst (metrics t)))"

definition entry_span :: "ctx \<Rightarrow> span" where
  "entry_span c =
     (case ctx_span c of
        Some s \<Rightarrow> s
      | None \<Rightarrow> tracer_Start None ''PlaceOrder'' SpanKindServer)"

definition ads_category :: "nat \<Rightarrow> string" where
  "ads_category r = [''clothing'', ''electronics'', ''home'', ''outdoor''] ! rand_Intn 4 r"

abbreviation POST :: "string \<Rightarrow> request" where
  "POST u \<equiv> \<lparr>req_method = ''POST'', req_url = u\<rparr>"

abbreviation GET :: "string \<Rightarrow> request" where
  "GET u \<equiv> \<lparr>req_method = ''GET'', req_url = u\<rparr>"

text \<open>The requests of one transaction up to the payment, and the ones after it.\<close>

definition calls_before_charge :: "config \<Rightarrow> rnd \<Rightarrow> request list" where
  "calls_before_charge cfg rn =
     [POST (CartURL cfg @ ''/cart/add?user_id='' @ userID_of rn @ ''&product_id='' @
            GetProductID (r_product rn 0)),
      POST (CartURL cfg @ ''/cart/add?user_id='' @ userID_of rn @ ''&product_id='' @
            GetProductID (r_product rn 1)),
      POST (CartURL cfg @ ''/cart/add?user_id='' @ userID_of rn @ ''&product_id='' @
            GetProductID (r_product rn 2)),
      GET (CartURL cfg @ ''/cart?user_id='' @ userID_of rn),
      POST (CartURL cfg @ ''/cart/empty?user_id='' @ userID_of rn),
      GET (ProductCatalogURL cfg @ ''/products/'' @ GetProductID (r_product rn 0)),
      GET (ProductCatalogURL cfg @ ''/products/'' @ GetProductID (r_product rn 1)),
      GET (ProductCatalogURL cfg @ ''/products/'' @ GetProductID (r_product rn 2)),
      GET (CurrencyURL cfg @ ''/convert?from=USD&to='' @ randomCurrency (r_currency rn) @
           ''&amount='' @ fmt_2f (rand_Intn 50000 (r_total rn) + 1000)),
      GET (RecommendationURL cfg @ ''/recommendations?user_id='' @ userID_of rn),
      GET (AdURL cfg @ ''/ads?category='' @ ads_category (r_category rn))]"

definition charge_request :: "config \<Rightarrow> request" where
  "charge_request cfg = POST (PaymentURL cfg @ ''/charge'')"

definition ship_request :: "config \<Rightarrow> request" where
  "ship_request cfg = POST (ShippingURL cfg @ ''/ship'')"

definition ads_request :: "config \<Rightarrow> rnd \<Rightarrow> request" where
  "ads_request cfg rn = GET (AdURL cfg @ ''/ads?category='' @ ads_category (r_category rn))"

definition calls_after_ship :: "config \<Rightarrow> request list" where
  "calls_after_ship cfg =
     [POST (EmailURL cfg @ ''/send''), POST (AccountingURL cfg @ ''/consume''),
      POST (FraudDetectionURL cfg @ ''/consume'')]"

subsection \<open>Concrete transactions\<close>

text \<open>
  Inputs used to run the orchestrator: the default configuration, one set of random draws,
  and networks in which the listed URLs are unreachable and every other one answers 200.
\<close>

definition cfg0 :: config where
  "cfg0 = load_config Map.empty"

definition rnd0 :: rnd where
  "rnd0 =
     \<lparr>r_user = 42, r_currency = 1, r_order_id = ''0b7f3a52-order'', r_product = (\<lambda>i. i),
      r_total = 2599, r_shipping = 499, r_category = 2\<rparr>"

definition ok_body :: json where
  "ok_body =
     [(''transaction_id'', JString ''tx-1''), (''tracking_id'', JString ''trk-1''),
      (''items_count'', JNumber 5)]"


definition net_down :: "string list \<Rightarrow> net" where
  "net_down us i req =
     (if req_url req \<in> set us then TransportError ''connection refused''
      else Response 200 ok_body)"

section \<open>Cart service\<close>

text \<open>
  The cart service keeps one Redis hash per user under the key \<open>cart:<user>\<close>, with one
  field per product. The Redis server is outside the repository; it is modelled as a map
  from keys to hashes that either is reachable or answers every command with an error.
  A hash is a list of fields with distinct names. A key with no field does not exist.
  The expiry that \<open>addItemHandler\<close> sets on the key (one hour) is not modelled: the model
  has no clock.
\<close>

text \<open>
  The quantity of an item is an \<open>int\<close> of Go: a 64-bit integer, whose sum wraps around.
\<close>

record CartItem =
  ProductID :: string
  Quantity :: "64 word"

text \<open>
  The value of a field is a text. It is modelled by the cart item it denotes when it is
  the JSON text of one (what \<open>json.Marshal\<close> produces and \<open>json.Unmarshal\<close> accepts), and
  by \<open>Text\<close> otherwise.
\<close>

datatype hvalue = ItemJSON CartItem | Text string

definition json_Marshal :: "CartItem \<Rightarrow> hvalue" where
  "json_Marshal item = ItemJSON item"

definition json_Unmarshal :: "hvalue \<Rightarrow> CartItem option" where
  "json_Unmarshal v = (case v of ItemJSON item \<Rightarrow> Some item | Text s \<Rightarrow> None)"

type_synonym hash = "(string, hvalue) alist"

record redis =
  reachable :: bool
  hashes :: "string \<Rightarrow> hash"

definition HSet :: "redis \<Rightarrow> string \<Rightarrow> string \<Rightarrow> hvalue \<Rightarrow> string + redis" where
  "HSet r key field v =
     (if reachable r
      then Inr (r\<lparr>hashes := (hashes r)(key := DAList.update field v (hashes r key))\<rparr>)
      else Inl ''dial tcp: connection refused'')"

definition HGetAll :: "redis \<Rightarrow> string \<Rightarrow> string + (string \<times> hvalue) list" where
  "HGetAll r key =
     (if reachable r then Inr (DAList.impl_of (hashes r key))
      else Inl ''dial tcp: connection refused'')"

definition Del :: "redis \<Rightarrow> string \<Rightarrow> string + redis" where
  "Del r key =
     (if reachable r then Inr (r\<lparr>hashes := (hashes r)(key := DAList.empty)\<rparr>)
      else Inl ''dial tcp: connection refused'')"

text \<open>\<open>http.Error\<close>: a plain text body, the message and a newline.\<close>

definition http_Error :: "string \<Rightarrow> nat \<Rightarrow> http_response" where
  "http_Error msg c =
     \<lparr>code = c, content_type = Some ''text/plain; charset=utf-8'', body = msg @ [CHR 0x0A]\<rparr>"

definition show_int :: "int \<Rightarrow> string" where
  "show_int i = (if i < 0 then ''-'' @ show_nat (nat (- i)) else show_nat (nat i))"

text \<open>The random draws of one request to the cart service.\<close>

record cart_rnd =
  c_user :: nat
  c_product :: nat
  c_quantity :: nat

text \<open>
  Each handler takes the query parameters (the empty string when absent), the server span
  of the request and the store, and returns the response, the span and the store. The
  latency histograms, the operations counter and the log lines are only written and are
  left out.
\<close>

definition addItemHandler ::
  "record_error \<Rightarrow> cart_rnd \<Rightarrow> string \<Rightarrow> string \<Rightarrow> span \<Rightarrow> redis \<Rightarrow>
   http_response \<times> span \<times> redis"
where
  \<open>addItemHandler RecordError rn user_id product_id sp r =
     (let userID = (if user_id = '''' then ''user-'' @ show_nat (rand_Intn 1000 (c_user rn))
                    else user_id);
          productID = (if product_id = '''' then GetProductID (c_product rn) else product_id);
          quantity = of_nat (rand_Intn 3 (c_quantity rn)) + 1;
          span = SetAttributes sp
                   [(''app.user.id'', AString userID), (''app.product.id'', AString productID),
                    (''app.product.quantity'', AInt (sint quantity))];
          item = \<lparr>ProductID = productID, Quantity = quantity\<rparr>;
          itemJSON = json_Marshal item;
          cartKey = ''cart:'' @ userID
      in case HSet r cartKey productID itemJSON of
           Inl err \<Rightarrow> (http_Error ''Failed to add item'' 500, RecordError span err, r)
         | Inr r' \<Rightarrow>
             (\<lparr>code = 200, content_type = None,
               body = ''{"status": "added", "user_id": "'' @ userID @ ''", "product_id": "'' @
                      productID @ ''"}''\<rparr>,
              span, r'))\<close>

text \<open>The loop of \<open>getCartHandler\<close> over the fields of the hash.\<close>

fun totalItems :: "(string \<times> hvalue) list \<Rightarrow> 64 word \<Rightarrow> 64 word" where
  "totalItems [] n = n"
| "totalItems ((field, itemJSON) # rest) n =
     (case json_Unmarshal itemJSON of
        Some item \<Rightarrow> totalItems rest (n + Quantity item)
      | None \<Rightarrow> totalItems rest n)"

definition getCartHandler ::
  "record_error \<Rightarrow> cart_rnd \<Rightarrow> string \<Rightarrow> span \<Rightarrow> redis \<Rightarrow> http_response \<times> span \<times> redis"
where
  \<open>getCartHandler RecordError rn user_id sp r =
     (let userID = (if user_id = '''' then ''user-'' @ show_nat (rand_Intn 1000 (c_user rn))
                    else user_id);
          span = SetAttributes sp [(''app.user.id'', AString userID)];
          span = AddEvent span ''Fetch cart'' [];
          cartKey = ''cart:'' @ userID
      in case HGetAll r cartKey of
           Inl err \<Rightarrow> (http_Error ''Failed to get cart'' 500, RecordError span err, r)
         | Inr items \<Rightarrow>
             (let total = totalItems items 0;
                  span = SetAttributes span [(''app.cart.items.count'', AInt (sint total))]
              in (\<lparr>code = 200, content_type = None,
                   body = ''{"user_id": "'' @ userID @ ''", "items_count": '' @
                          show_int (sint total) @ ''}''\<rparr>,
                  span, r)))\<close>

definition emptyCartHandler ::
  "record_error \<Rightarrow> cart_rnd \<Rightarrow> string \<Rightarrow> span \<Rightarrow> redis \<Rightarrow> http_response \<times> span \<times> redis"
where
  \<open>emptyCartHandler RecordError rn user_id sp r =
     (let userID = (if user_id = '''' then ''user-'' @ show_nat (rand_Intn 1000 (c_user rn))
                    else user_id);
          span = SetAttributes sp [(''app.user.id'', AString userID)];
          span = AddEvent span ''Empty cart'' [];
          cartKey = ''cart:'' @ userID
      in case Del r cartKey of
           Inl err \<Rightarrow> (http_Error ''Failed to empty cart'' 500, RecordError span err, r)
         | Inr r' \<Rightarrow>
             (\<lparr>code = 200, content_type = None,
               body = ''{"status": "emptied", "user_id": "'' @ userID @ ''"}''\<rparr>,
              span, r'))\<close>

text \<open>
  The product that \<open>addItemHandler\<close> stores and the quantity it draws, and the fields of
  a cart other than one product.
\<close>

definition added_product :: "cart_rnd \<Rightarrow> string \<Rightarrow> string" where
  "added_product rn product_id =
     (if product_id = '''' then GetProductID (c_product rn) else product_id)"

definition added_quantity :: "cart_rnd \<Rightarrow> 64 word" where
  "added_quantity rn = of_nat (rand_Intn 3 (c_quantity rn)) + 1"

definition other_fields :: "string \<Rightarrow> (string \<times> hvalue) list \<Rightarrow> (string \<times> hvalue) list" where
  "other_fields p fs = filter (\<lambda>kv. fst kv \<noteq> p) fs"

definition cart_of :: "redis \<Rightarrow> string \<Rightarrow> (string \<times> hvalue) list" where
  "cart_of r u = DAList.impl_of (hashes r (''cart:'' @ u))"

text \<open>A store for running the handlers: one cart, holding two mugs.\<close>

definition redis0 :: redis where
  "redis0 =
     \<lparr>reachable = True,
      hashes = (\<lambda>k. if k = ''cart:alice''
                    then DAList.update ''6E92ZMYYFZ''
                           (ItemJSON \<lparr>ProductID = ''6E92ZMYYFZ'', Quantity = 2\<rparr>) DAList.empty
                    else DAList.empty)\<rparr>"

definition cart_rnd0 :: cart_rnd where
  "cart_rnd0 = \<lparr>c_user = 7, c_product = 3, c_quantity = 4\<rparr>"

definition span0 :: span where
  "span0 = tracer_Start None ''AddItem'' SpanKindServer"

section \<open>Shipping service (go/services/shipping.go)\<close>

text \<open>
  A quote is \<open>5.99 + count * 1.50 + rand.Intn(300) / 100.0\<close>; the model keeps it in
  hundredths. What the handlers depend on is given as parameters: whether building the
  request to the quote service fails, what the quote service answers, and the random
  draws. The counters, the histogram and the log lines are only written and are left out.
\<close>

record quote_env =
  new_request_error :: "string option"
  quote_response :: response

record ship_rnd =
  s_items :: nat
  s_quote :: nat
  s_uuid :: string

definition calculateQuoteLocally :: "span \<Rightarrow> nat \<Rightarrow> nat \<Rightarrow> (nat \<times> string option) \<times> span" where
  "calculateQuoteLocally sp count r =
     (let baseRate = 599;
          perItemRate = 150;
          quote = baseRate + count * perItemRate + rand_Intn 300 r;
          sp = SetAttributes sp
                 [(''quote.items.count'', AInt (int count)),
                  (''quote.base_rate'', hundredths baseRate),
                  (''quote.per_item_rate'', hundredths perItemRate),
                  (''quote.total'', hundredths quote),
                  (''quote.external_service'', ABool False)];
          sp = AddEvent sp ''Quote calculated locally''
                 [(''app.shipping.cost.total'', hundredths quote)]
      in ((quote, None), sp))"

text \<open>
  \<open>createQuoteFromCount\<close> returns the quote and the error, and here also its own span,
  ended on return.
\<close>

definition createQuoteFromCount ::
  "record_error \<Rightarrow> quote_env \<Rightarrow> string option \<Rightarrow> nat \<Rightarrow> nat \<Rightarrow> (nat \<times> string option) \<times> span"
where
  "createQuoteFromCount RecordError env parent count r =
     (let sp = tracer_Start parent ''createQuoteFromCount'' SpanKindClient
      in case new_request_error env of
           Some err \<Rightarrow>
             (let (res, sp) = calculateQuoteLocally (RecordError sp err) count r
              in (res, End sp))
         | None \<Rightarrow>
             (case quote_response env of
                TransportError err \<Rightarrow>
                  (let (res, sp) = calculateQuoteLocally (RecordError sp err) count r
                   in (res, End sp))
              | Response c b \<Rightarrow>
                  (let quote = 599 + count * 150 + rand_Intn 300 r;
                       sp = SetAttributes sp
                              [(''quote.items.count'', AInt (int count)),
                               (''quote.total'', hundredths quote),
                               (''quote.external_service'', ABool True)];
                       sp = AddEvent sp ''Quote received from service''
                              [(''app.shipping.cost.total'', hundredths quote)]
                   in ((quote, None), End sp))))"

text \<open>The handler returns the response, the server span and the span of the quote.\<close>

definition shipHandler ::
  "record_error \<Rightarrow> quote_env \<Rightarrow> ship_rnd \<Rightarrow> span \<Rightarrow> http_response \<times> span \<times> span"
where
  \<open>shipHandler RecordError env rn sp =
     (let itemCount = rand_Intn 5 (s_items rn) + 1;
          ((quote, err), child) =
             createQuoteFromCount RecordError env (Some (sp_name sp)) itemCount (s_quote rn)
      in case err of
           Some e \<Rightarrow> (http_Error ''Failed to calculate quote'' 500, RecordError sp e, child)
         | None \<Rightarrow>
             (let trackingID = s_uuid rn;
                  sp = SetAttributes sp
                         [(''shipping.tracking.id'', AString trackingID),
                          (''shipping.items.count'', AInt (int itemCount)),
                          (''app.shipping.cost.total'', hundredths quote)];
                  sp = AddEvent sp ''Received Quote''
                         [(''app.shipping.cost.total'', hundredths quote)]
              in (\<lparr>code = 200, content_type = None,
                   body = ''{"tracking_id": "'' @ trackingID @ ''", "cost": '' @ fmt_2f quote @
                          ''}''\<rparr>,
                  sp, child)))\<close>

definition getQuoteHandler ::
  "record_error \<Rightarrow> quote_env \<Rightarrow> ship_rnd \<Rightarrow> span \<Rightarrow> http_response \<times> span \<times> span"
where
  \<open>getQuoteHandler RecordError env rn sp =
     (let itemCount = rand_Intn 10 (s_items rn) + 1;
          ((quote, err), child) =
             createQuoteFromCount RecordError env (Some (sp_name sp)) itemCount (s_quote rn)
      in case err of
           Some e \<Rightarrow> (http_Error ''Failed to calculate quote'' 500, RecordError sp e, child)
         | None \<Rightarrow>
             (let sp = SetAttributes sp
                         [(''app.quote.items.count'', AInt (int itemCount)),
                          (''app.quote.cost.total'', hundredths quote)]
              in (\<lparr>code = 200, content_type = None,
                   body = ''{"quote": '' @ fmt_2f quote @ '', "items": '' @ show_nat itemCount @
                          ''}''\<rparr>,
                  sp, child)))\<close>

text \<open>The quote the handler of \<open>/ship\<close> reports.\<close>

definition ship_quote :: "ship_rnd \<Rightarrow> nat" where
  "ship_quote rn = 599 + (rand_Intn 5 (s_items rn) + 1) * 150 + rand_Intn 300 (s_quote rn)"

section \<open>Payment service (javascript/payment.js)\<close>

text \<open>
  The random draws of one charge. \<open>p_fail\<close> is the value of the \<open>Math.random()\<close> that is
  compared with 0.05; the amount \<open>(Math.random() * 500 + 10).toFixed(2)\<close> is given in
  hundredths.
\<close>

record pay_rnd =
  p_card :: nat
  p_loyalty :: nat
  p_amount :: nat
  p_currency :: nat
  p_uuid :: string
  p_fail :: real

definition CARD_PREFIXES :: "(string \<times> string) list" where
  "CARD_PREFIXES = [(''4'', ''visa''), (''5'', ''mastercard''), (''3'', ''amex''), (''6'', ''discover'')]"

definition LOYALTY_LEVELS :: "string list" where
  "LOYALTY_LEVELS = [''bronze'', ''silver'', ''gold'', ''platinum'']"

definition padStart :: "nat \<Rightarrow> char \<Rightarrow> string \<Rightarrow> string" where
  "padStart n c s = replicate (n - length s) c @ s"

text \<open>
  Modelled from the spec: \<open>recordException\<close> is the \<open>record_error\<close> of the tracing API
  of the JavaScript services; it sets status = error and attaches the exception. The
  handlers call \<open>setStatus\<close> with the error code right after it in every case.
\<close>

definition recordException :: "span \<Rightarrow> string \<Rightarrow> span" where
  "recordException s msg = record_error_spec s msg"

text \<open>
  \<open>handleCharge\<close> returns the response, the server span and the labels of the sample
  added to the transactions counter. No statement of its \<open>try\<close> block throws in the model,
  so its \<open>catch\<close> branch has no counterpart.
\<close>

definition handleCharge ::
  "pay_rnd \<Rightarrow> string option \<Rightarrow> (string \<times> string) list option \<Rightarrow>
   http_response \<times> span \<times> (string \<times> string) list"
where
  \<open>handleCharge rn parent baggage =
     (let sp = SetAttributes (tracer_Start parent ''charge'' SpanKindServer)
                 [(''rpc.system'', AString ''grpc''),
                  (''rpc.service'', AString ''oteldemo.PaymentService''),
                  (''rpc.method'', AString ''Charge'')];
          sp = (case baggage of
                  Some b \<Rightarrow>
                    SetAttributes sp
                      [(''app.payment.charged'',
                        ABool (\<not> (map_of b ''synthetic_request'' = Some ''true'')))]
                | None \<Rightarrow> SetAttributes sp [(''app.payment.charged'', ABool True)]);
          cardNumber = ''4'' @ padStart 15 (CHR ''0'') (show_nat (rand_Intn (10 ^ 15) (p_card rn)));
          cardType = (case map_of CARD_PREFIXES (take 1 cardNumber) of
                        Some t \<Rightarrow> t | None \<Rightarrow> ''unknown'');
          lastFour = drop (length cardNumber - 4) cardNumber;
          loyaltyLevel = LOYALTY_LEVELS ! rand_Intn (length LOYALTY_LEVELS) (p_loyalty rn);
          amount = rand_Intn 50000 (p_amount rn) + 1000;
          currency = [''USD'', ''EUR'', ''GBP'', ''JPY''] ! rand_Intn 4 (p_currency rn);
          transactionId = p_uuid rn;
          sp = SetAttributes sp
                 [(''app.payment.card_type'', AString cardType),
                  (''app.payment.card_valid'', ABool True),
                  (''app.payment.last_four'', AString lastFour),
                  (''app.loyalty.level'', AString loyaltyLevel),
                  (''app.payment.amount'', hundredths amount),
                  (''app.payment.currency'', AString currency),
                  (''app.payment.transaction.id'', AString transactionId)]
      in if p_fail rn < 5 / 100
         then (let msg = ''Payment failed: insufficient funds'';
                   sp = recordException sp msg;
                   sp = SetStatus sp Error;
                   sp = AddEvent sp ''payment_failed''
                          [(''app.payment.failure_reason'', AString ''insufficient_funds'')]
               in (\<lparr>code = 402, content_type = None,
                    body = ''{"error":"Payment failed: insufficient funds"}''\<rparr>,
                   End sp,
                   [(''currency'', currency), (''status'', ''failed''), (''card_type'', cardType)]))
         else (let sp = AddEvent sp ''payment_successful''
                          [(''app.payment.transaction.id'', AString transactionId)]
               in (\<lparr>code = 200, content_type = Some ''application/json'',
                    body = ''{"transaction_id":"'' @ transactionId @ ''","amount":"'' @
                           fmt_2f amount @ ''","currency":"'' @ currency @
                           ''","card_type":"'' @ cardType @ ''"}''\<rparr>,
                   End sp,
                   [(''currency'', currency), (''status'', ''success''),
                    (''card_type'', cardType)])))\<close>

definition js_not_found :: http_response where
  \<open>js_not_found = \<lparr>code = 404, content_type = None, body = ''{"error":"Not found"}''\<rparr>\<close>

definition payment_server ::
  "pay_rnd \<Rightarrow> string option \<Rightarrow> (string \<times> string) list option \<Rightarrow> string \<Rightarrow> string \<Rightarrow>
   http_response"
where
  "payment_server rn parent baggage method pathname =
     (if pathname = ''/charge'' \<and> method = ''POST''
      then fst (handleCharge rn parent baggage)
      else js_not_found)"

section \<open>Fraud detection service (go/services/fraud_detection.go)\<close>

text \<open>
  \<open>f_draw\<close> is the value of \<open>rand.Float32()\<close> that is compared with 0.02; the order id,
  the user id and the amount are drawn as well.
\<close>

record fraud_rnd =
  f_order :: string
  f_user :: string
  f_amount :: nat
  f_draw :: real

text \<open>\<open>detectFraud\<close> returns the verdict and its own span, ended on return.\<close>

definition detectFraud :: "fraud_rnd \<Rightarrow> string option \<Rightarrow> bool \<times> span" where
  "detectFraud rn parent =
     (let sp = tracer_Start parent ''detectFraud'' SpanKindInternal;
          orderID = ''order-'' @ f_order rn;
          amount = rand_Intn 50000 (f_amount rn) + 1000;
          userID = ''user-'' @ f_user rn;
          sp = SetAttributes sp
                 [(''app.order.id'', AString orderID), (''app.order.amount'', hundredths amount),
                  (''app.user.id'', AString userID)];
          isFraud = (f_draw rn < 2 / 100);
          sp = SetAttributes sp [(''app.fraud.detected'', ABool isFraud)];
          sp = (if isFraud
                then AddEvent sp ''fraud_detected''
                       [(''app.order.id'', AString orderID),
                        (''app.fraud.reason'', AString ''suspicious_pattern'')]
                else AddEvent sp ''order_cleared'' [])
      in (isFraud, End sp))"

text \<open>
  The handler returns the response, the server span of the request and the span of
  \<open>detectFraud\<close>. The body is the JSON encoding of a map, keys in order, with a newline.
\<close>

definition handleFraudConsume :: "fraud_rnd \<Rightarrow> span \<Rightarrow> http_response \<times> span \<times> span" where
  \<open>handleFraudConsume rn sp =
     (let sp = SetAttributes sp
                 [(''messaging.system'', AString ''kafka''),
                  (''messaging.destination.name'', AString ''orders''),
                  (''messaging.operation.type'', AString ''receive''),
                  (''messaging.consumer.group.name'', AString ''frauddetectionservice'')];
          (fraudDetected, child) = detectFraud rn (Some (sp_name sp))
      in (\<lparr>code = 200, content_type = None,
           body = ''{"is_fraud":'' @ (if fraudDetected then ''true'' else ''false'') @
                  '',"status":"scanned"}'' @ [CHR 0x0A]\<rparr>,
          sp, child))\<close>

text \<open>Draws for running the two services: a failing charge and a detected fraud.\<close>

definition pay_rnd_fail :: pay_rnd where
  "pay_rnd_fail =
     \<lparr>p_card = 1234567890, p_loyalty = 2, p_amount = 2599, p_currency = 0,
      p_uuid = ''7d1c-tx'', p_fail = 1 / 100\<rparr>"

definition fraud_rnd_hit :: fraud_rnd where
  "fraud_rnd_hit = \<lparr>f_order = ''ab12cd34'', f_user = ''u1v2w3'', f_amount = 100, f_draw = 1 / 100\<rparr>"

definition consume_span :: span where
  "consume_span = tracer_Start None ''orders receive'' SpanKindServer"

section \<open>Routing tables of the servers\<close>

text \<open>
  What a server does with a request before any handler runs: it answers at once with a
  fixed response, or it hands the request to the handler named.
\<close>

datatype routed = Handler string | Reply http_response

definition health_go :: http_response where
  \<open>health_go = \<lparr>code = 200, content_type = None, body = ''{"status":"ok"}''\<rparr>\<close>

definition health_js :: http_response where
  \<open>health_js = \<lparr>code = 200, content_type = Some ''application/json'', body = ''{"status":"ok"}''\<rparr>\<close>

text \<open>
  The Go servers register their handlers in a \<open>http.ServeMux\<close> of the standard library.
  A pattern without a trailing slash serves exactly its path; a pattern with a trailing
  slash serves every path below it, the longest such pattern first; a path that no
  pattern serves gets the reply of \<open>http.NotFound\<close>.
\<close>

fun longest :: "(string \<times> routed) list \<Rightarrow> (string \<times> routed) option" where
  "longest [] = None"
| "longest (x # xs) =
     (case longest xs of
        None \<Rightarrow> Some x
      | Some y \<Rightarrow> if length (fst x) < length (fst y) then Some y else Some x)"

definition subtree :: "string \<Rightarrow> string \<times> routed \<Rightarrow> bool" where
  "subtree path r =
     (fst r \<noteq> [] \<and> last (fst r) = CHR ''/'' \<and> take (length (fst r)) path = fst r)"

definition ServeMux :: "(string \<times> routed) list \<Rightarrow> string \<Rightarrow> routed" where
  "ServeMux routes path =
     (case map_of routes path of
        Some h \<Rightarrow> h
      | None \<Rightarrow>
          (case longest (filter (subtree path) routes) of
             Some r \<Rightarrow> snd r
           | None \<Rightarrow> Reply (http_Error ''404 page not found'' 404)))"

definition checkout_mux :: "string \<Rightarrow> routed" where
  "checkout_mux = ServeMux [(''/checkout'', Handler ''PlaceOrder''), (''/health'', Reply health_go)]"

definition fraud_mux :: "string \<Rightarrow> routed" where
  "fraud_mux = ServeMux [(''/consume'', Handler ''orders receive''), (''/health'', Reply health_go)]"

definition accounting_mux :: "string \<Rightarrow> routed" where
  "accounting_mux =
     ServeMux [(''/consume'', Handler ''orders receive''), (''/health'', Reply health_go)]"

definition cart_mux :: "string \<Rightarrow> routed" where
  "cart_mux =
     ServeMux [(''/cart/add'', Handler ''AddItem''), (''/cart'', Handler ''GetCart''),
               (''/cart/empty'', Handler ''EmptyCart'')]"

definition shipping_mux :: "string \<Rightarrow> routed" where
  "shipping_mux = ServeMux [(''/ship'', Handler ''ship''), (''/get-quote'', Handler ''get-quote'')]"

definition product_mux :: "string \<Rightarrow> routed" where
  "product_mux =
     ServeMux [(''/products'', Handler ''ListProducts''), (''/products/'', Handler ''GetProduct''),
               (''/products/search'', Handler ''SearchProducts'')]"

definition currency_mux :: "string \<Rightarrow> routed" where
  "currency_mux =
     ServeMux [(''/convert'', Handler ''Convert''),
               (''/currencies'', Handler ''GetSupportedCurrencies'')]"

text \<open>
  The JavaScript servers test the method and the path themselves. The payment server is
  \<open>payment_server\<close> above and the frontend is \<open>frontend_server\<close> below; the email server,
  the ad server and the browser simulator route as follows (the simulator compares the
  whole request URL).
\<close>

definition email_route :: "string \<Rightarrow> string \<Rightarrow> routed" where
  "email_route method pathname =
     (if pathname = ''/send'' \<and> method = ''POST'' then Handler ''handleSendEmail''
      else Reply js_not_found)"

definition ad_route :: "string \<Rightarrow> string \<Rightarrow> routed" where
  "ad_route method pathname =
     (if pathname = ''/ads'' \<or> pathname = ''/'' then Handler ''handleGetAds''
      else Reply js_not_found)"

definition browser_route :: "string \<Rightarrow> routed" where
  "browser_route url =
     (if url = ''/health'' then Reply health_js
      else if url = ''/trigger'' \<or> url = ''/'' then Handler ''runSingleIteration''
      else Reply \<lparr>code = 404, content_type = None, body = ''Not found''\<rparr>)"

section \<open>Frontend (javascript/frontend.js)\<close>

text \<open>
  A string of JavaScript is a sequence of UTF-16 code units. The values of the query
  arrive percent-decoded and can hold any code unit, and so can the URLs the handler builds
  from them; they are sequences of 16-bit words. The texts that only hold what the source
  writes or what arrives in single bytes (the method, the path of the request, the
  addresses of the services, error messages, bodies) stay byte strings; \<open>js\<close> turns such a
  text into code units.
\<close>

type_synonym jstring = "16 word list"

definition js :: "string \<Rightarrow> jstring" where
  "js s = map (\<lambda>c. of_nat (of_char c)) s"

text \<open>
  What happens to the request that \<open>makeRequest\<close> sends: the downstream service answers
  with a status and a body, the request fails with an error, or the timeout of 30 seconds
  fires. The promise that \<open>makeRequest\<close> returns is resolved with a text or rejected.
\<close>

datatype downstream = Replied nat string | Failed string | TimedOut

datatype promise = Resolved string | Rejected string

text \<open>\<open>JSON.stringify({ error: msg })\<close>.\<close>

definition js_escape :: "char \<Rightarrow> string" where
  "js_escape c =
     (if c = CHR 0x22 then [CHR 0x5C, CHR 0x22]
      else if c = CHR 0x5C then [CHR 0x5C, CHR 0x5C]
      else if c = CHR 0x08 then [CHR 0x5C, CHR ''b'']
      else if c = CHR 0x0C then [CHR 0x5C, CHR ''f'']
      else if c = CHR 0x0A then [CHR 0x5C, CHR ''n'']
      else if c = CHR 0x0D then [CHR 0x5C, CHR ''r'']
      else if c = CHR 0x09 then [CHR 0x5C, CHR ''t'']
      else if (of_char c :: nat) < 32
      then [CHR 0x5C, CHR ''u'', CHR ''0'', CHR ''0'',
            ''0123456789abcdef'' ! (of_char c div 16), ''0123456789abcdef'' ! (of_char c mod 16)]
      else [c])"

definition JSON_stringify_error :: "string \<Rightarrow> string" where
  \<open>JSON_stringify_error msg = ''{"error":"'' @ concat (map js_escape msg) @ ''"}''\<close>

subsection \<open>The calls into Node\<close>

text \<open>
  \<open>url.parse\<close> and \<open>http.request\<close> are functions of Node, not of the repository.
  \<open>makeRequest\<close> calls both inside the executor of its promise, where an exception rejects
  the promise. The handler takes as a parameter what the two calls throw for a method and a
  URL: the message of the exception, or \<open>None\<close> when the request is created and sent.
\<close>

type_synonym http_request = "string \<Rightarrow> jstring \<Rightarrow> string option"










subsection \<open>The handler\<close>

text \<open>
  \<open>makeRequest\<close> returns the promise and here also the client span. When a call inside
  the executor throws, the promise is rejected and the client span is never ended. Otherwise
  the three callbacks are the three cases, and each of them resolves. The injection of the
  trace context into the request headers and the span attribute \<open>http.url\<close> are left out.
\<close>

definition makeRequest ::
  "http_request \<Rightarrow> string \<Rightarrow> jstring \<Rightarrow> span \<Rightarrow> downstream \<Rightarrow> promise \<times> span"
where
  \<open>makeRequest http_request method urlString parentSpan outcome =
     (let clientSpan = tracer_Start (Some (sp_name parentSpan)) (''HTTP '' @ method) SpanKindClient;
          clientSpan = SetAttributes clientSpan [(''http.method'', AString method)]
      in case http_request method urlString of
           Some e \<Rightarrow> (Rejected e, clientSpan)
         | None \<Rightarrow>
             (case outcome of
                Replied c data \<Rightarrow>
                  (Resolved (if data = '''' then ''{}'' else data),
                   End (SetAttributes clientSpan [(''http.status_code'', AInt (int c))]))
              | Failed msg \<Rightarrow>
                  (Resolved (JSON_stringify_error msg),
                   End (SetStatus (recordException clientSpan msg) Error))
              | TimedOut \<Rightarrow>
                  (Resolved ''{"error":"timeout"}'', End (SetStatus clientSpan Error))))\<close>

text \<open>
  \<open>await makeRequest(...)\<close> followed by \<open>res.writeHead(200, ...)\<close> and
  \<open>res.end(response)\<close>: a rejected promise throws instead, and its client span, which
  has not ended, is not among the spans that ended.
\<close>

definition forward :: "promise \<times> span \<Rightarrow> (string + http_response) \<times> span list" where
  "forward pr =
     (case fst pr of
        Resolved response \<Rightarrow>
          (Inr \<lparr>code = 200, content_type = Some ''application/json'', body = response\<rparr>, [snd pr])
      | Rejected e \<Rightarrow> (Inl e, []))"

type_synonym query = "(string \<times> jstring) list"

definition query_or :: "query \<Rightarrow> string \<Rightarrow> jstring \<Rightarrow> jstring" where
  \<comment> \<open>\<open>parsedUrl.query.k || d\<close>\<close>
  "query_or q k d = (case map_of q k of Some v \<Rightarrow> if v = [] then d else v | None \<Rightarrow> d)"

text \<open>
  The request handler. Its arguments are what the calls into Node throw, the addresses of
  the services, the method, the path and the decoded query of the request, the parent span
  of the extracted context, an exception thrown inside the \<open>try\<close> block by a call into the
  telemetry API if there is one (it is taken at the first call, \<open>emitLog\<close>), and the
  outcome of the downstream request. It returns the response and the spans that ended: its
  server span, then the client span. The addresses of the services have the same defaults as
  in the Go configuration, so the record \<open>config\<close> is used for them. The request counter,
  the log lines and the span attribute \<open>http.url\<close> are only written and are left out. A
  query key that occurs once has a text as its value; a key that occurs several times is
  taken with the text the template string makes of its values.
\<close>

definition frontend_server ::
  "http_request \<Rightarrow> config \<Rightarrow> string \<Rightarrow> string \<Rightarrow> query \<Rightarrow> string option \<Rightarrow> string option \<Rightarrow>
   downstream \<Rightarrow> http_response \<times> span list"
where
  \<open>frontend_server http_request cfg method path query parent exn outcome =
     (if path = ''/health'' then (health_js, [])
      else
        let sp = SetAttributes (tracer_Start parent (method @ '' '' @ path) SpanKindServer)
                   [(''http.method'', AString method), (''http.route'', AString path)];
            attempt =
              (case exn of
                 Some e \<Rightarrow> (Inl e, [])
               | None \<Rightarrow>
                   if path = ''/'' \<or> path = ''/index.html''
                   then (Inr \<lparr>code = 200, content_type = Some ''text/html'',
                             body = ''<html><body><h1>OTel Demo Frontend</h1></body></html>''\<rparr>,
                         [])
                   else if path = ''/api/products''
                   then forward (makeRequest http_request ''GET''
                                   (js (ProductCatalogURL cfg @ ''/products'')) sp outcome)
                   else if take 14 path = ''/api/products/''
                   then forward (makeRequest http_request ''GET''
                                   (js (ProductCatalogURL cfg @ ''/products/'' @ drop 14 path))
                                   sp outcome)
                   else if path = ''/api/cart''
                   then forward (makeRequest http_request ''GET''
                                   (js (CartURL cfg @ ''/cart?user_id='') @
                                    query_or query ''user_id'' (js ''anonymous'')) sp outcome)
                   else if path = ''/api/recommendations''
                   then forward (makeRequest http_request ''GET''
                                   (js (RecommendationURL cfg @ ''/?productIds='') @
                                    query_or query ''productIds'' []) sp outcome)
                   else if path = ''/api/checkout''
                   then forward (makeRequest http_request ''POST''
                                   (js (CheckoutURL cfg @ ''/checkout'')) sp outcome)
                   else if path = ''/api/ads''
                   then forward (makeRequest http_request ''GET''
                                   (js (AdURL cfg @ ''/ads'')) sp outcome)
                   else if path = ''/api/currencies''
                   then forward (makeRequest http_request ''GET''
                                   (js (CurrencyURL cfg @ ''/currencies'')) sp outcome)
                   else (Inr js_not_found, []))
        in case fst attempt of
             Inr res \<Rightarrow>
               (res,
                End (SetAttributes sp [(''http.status_code'', AInt (int (code res)))]) # snd attempt)
           | Inl e \<Rightarrow>
               (\<lparr>code = 500, content_type = None, body = JSON_stringify_error e\<rparr>,
                End (SetStatus (recordException sp e) Error) # snd attempt))\<close>





section \<open>Context propagator\<close>

text \<open>
  The services configure the propagators of the SDK (trace context and baggage) and call
  \<open>inject\<close> and \<open>extract\<close>; the encoding itself is not part of the repository.
\<close>

record TraceContext =
  tc_trace_id :: "128 word"
  tc_span_id :: "64 word"
  tc_sampled :: bool
  tc_baggage :: "(string \<times> string) list"

type_synonym headers = "(string \<times> string) list"

subsection \<open>Hexadecimal fields\<close>

definition hex_digit :: "nat \<Rightarrow> char" where
  "hex_digit d = ''0123456789abcdef'' ! d"

definition digit_val :: "char \<Rightarrow> nat option" where
  "digit_val c = map_of (zip ''0123456789abcdef'' [0..<16]) c"

text \<open>\<open>hex k n\<close> is the number \<open>n\<close> in \<open>k\<close> lowercase hexadecimal digits.\<close>

fun hex :: "nat \<Rightarrow> nat \<Rightarrow> string" where
  "hex 0 n = []"
| "hex (Suc k) n = hex k (n div 16) @ [hex_digit (n mod 16)]"

fun unhex :: "string \<Rightarrow> nat \<Rightarrow> nat option" where
  "unhex [] acc = Some acc"
| "unhex (c # cs) acc =
     (case digit_val c of None \<Rightarrow> None | Some d \<Rightarrow> unhex cs (acc * 16 + d))"

subsection \<open>Delimited texts\<close>

fun split_on :: "char \<Rightarrow> string \<Rightarrow> string list" where
  "split_on c [] = [[]]"
| "split_on c (x # xs) =
     (if x = c then [] # split_on c xs
      else (case split_on c xs of [] \<Rightarrow> [[x]] | w # ws \<Rightarrow> (x # w) # ws))"

fun join :: "char \<Rightarrow> string list \<Rightarrow> string" where
  "join c [] = []"
| "join c [w] = w"
| "join c (w # v # ws) = w @ c # join c (v # ws)"

subsection \<open>Injection and extraction\<close>

text \<open>
  Modelled from the spec: \<open>inject(context)\<close> serialises the context into the trace-context
  header in the hyphen-delimited format \<open>version-traceid-spanid-flags\<close>, plus a separate
  baggage header listing comma-separated \<open>key=value\<close> pairs. The identifiers are written
  in 32 and 16 hexadecimal digits, the version is \<open>00\<close> and the flags are \<open>01\<close> when the
  context is sampled, \<open>00\<close> otherwise. A context without baggage gets no baggage header.
\<close>

definition render_traceparent :: "TraceContext \<Rightarrow> string" where
  "render_traceparent c =
     join (CHR ''-'')
       [''00'', hex 32 (unat (tc_trace_id c)), hex 16 (unat (tc_span_id c)),
        if tc_sampled c then ''01'' else ''00'']"

definition render_member :: "string \<times> string \<Rightarrow> string" where
  "render_member kv = fst kv @ CHR ''='' # snd kv"

definition inject :: "TraceContext \<Rightarrow> headers" where
  "inject c =
     (''traceparent'', render_traceparent c) #
     (if tc_baggage c = [] then []
      else [(''baggage'', join (CHR '','') (map render_member (tc_baggage c)))])"

text \<open>
  Modelled from the spec: \<open>extract(headers)\<close>, here \<open>extract_ctx\<close>, parses the encoding
  \<open>version-trace_id-span_id-flags\<close> from the trace-context header and returns a fresh
  root context if the header is absent or malformed; it never fails. Malformed is: not four
  fields, a field of the wrong length or with a character that is no hexadecimal digit,
  the version \<open>ff\<close>, or an identifier that is zero. The sampling flag is the lowest bit of
  the flags. The baggage header is read on its own: its members are split at the commas and
  each at its first \<open>=\<close>; a member without a key or without \<open>=\<close> is dropped.
\<close>

definition parse_traceparent :: "string \<Rightarrow> (128 word \<times> 64 word \<times> bool) option" where
  "parse_traceparent s =
     (case split_on (CHR ''-'') s of
        [v, t, p, f] \<Rightarrow>
          if length v = 2 \<and> length t = 32 \<and> length p = 16 \<and> length f = 2 \<and> v \<noteq> ''ff''
          then (case (unhex v 0, unhex t 0, unhex p 0, unhex f 0) of
                  (Some vn, Some tn, Some pn, Some fn) \<Rightarrow>
                    if tn = 0 \<or> pn = 0 then None else Some (of_nat tn, of_nat pn, odd fn)
                | _ \<Rightarrow> None)
          else None
      | _ \<Rightarrow> None)"

definition parse_member :: "string \<Rightarrow> (string \<times> string) option" where
  "parse_member m =
     (let k = takeWhile (\<lambda>x. x \<noteq> CHR ''='') m;
          rest = dropWhile (\<lambda>x. x \<noteq> CHR ''='') m
      in if k = [] \<or> rest = [] then None else Some (k, tl rest))"

definition parse_baggage :: "string \<Rightarrow> (string \<times> string) list" where
  "parse_baggage s = (if s = [] then [] else List.map_filter parse_member (split_on (CHR '','') s))"

definition extract_ctx :: "TraceContext \<Rightarrow> headers \<Rightarrow> TraceContext" where
  "extract_ctx fresh hs =
     (let bag = (case map_of hs ''baggage'' of Some s \<Rightarrow> parse_baggage s | None \<Rightarrow> []);
          parsed = (case map_of hs ''traceparent'' of
                      Some s \<Rightarrow> parse_traceparent s
                    | None \<Rightarrow> None)
      in case parsed of
           Some (t, p, f) \<Rightarrow> \<lparr>tc_trace_id = t, tc_span_id = p, tc_sampled = f, tc_baggage = bag\<rparr>
         | None \<Rightarrow> fresh\<lparr>tc_baggage := bag\<rparr>)"

text \<open>
  A context is valid when its identifiers are not zero and its baggage can be written in
  the header: no key is empty or contains \<open>=\<close> or a comma, and no value contains a comma.
\<close>

definition valid_member :: "string \<times> string \<Rightarrow> bool" where
  "valid_member kv =
     (fst kv \<noteq> [] \<and> CHR ''='' \<notin> set (fst kv) \<and> CHR '','' \<notin> set (fst kv) \<and>
      CHR '','' \<notin> set (snd kv))"

definition valid_context :: "TraceContext \<Rightarrow> bool" where
  "valid_context c = (tc_trace_id c \<noteq> 0 \<and> tc_span_id c \<noteq> 0 \<and> list_all valid_member (tc_baggage c))"

text \<open>A context for running the propagator, and a fresh root.\<close>

definition ctx0 :: TraceContext where
  "ctx0 =
     \<lparr>tc_trace_id = 0x0af7651916cd43dd8448eb211c80319c, tc_span_id = 0xb7ad6b7169203331,
      tc_sampled = True,
      tc_baggage = [(''session.id'', ''abc''), (''synthetic_request'', ''true'')]\<rparr>"

definition fresh0 :: TraceContext where
  "fresh0 = \<lparr>tc_trace_id = 1, tc_span_id = 1, tc_sampled = False, tc_baggage = []\<rparr>"

section \<open>Properties of the checkout orchestrator\<close>

subsection \<open>What each step leaves behind\<close>

lemma span_ops [simp]:
  "sp_name (SetAttributes s kvs) = sp_name s" "sp_kind (SetAttributes s kvs) = sp_kind s"
  "sp_parent (SetAttributes s kvs) = sp_parent s" "sp_status (SetAttributes s kvs) = sp_status s"
  "sp_name (AddEvent s n kvs) = sp_name s" "sp_kind (AddEvent s n kvs) = sp_kind s"
  "sp_parent (AddEvent s n kvs) = sp_parent s" "sp_status (AddEvent s n kvs) = sp_status s"
  "sp_name (End s) = sp_name s" "sp_kind (End s) = sp_kind s"
  "sp_parent (End s) = sp_parent s" "sp_status (End s) = sp_status s"
  "sp_name (tracer_Start p n k) = n" "sp_kind (tracer_Start p n k) = k"
  "sp_parent (tracer_Start p n k) = p" "sp_status (tracer_Start p n k) = Unset"
  by (simp_all add: SetAttributes_def AddEvent_def End_def tracer_Start_def)

lemma span_if [simp]:
  "sp_name (if b then SetAttributes s kvs else s) = sp_name s"
  "sp_kind (if b then SetAttributes s kvs else s) = sp_kind s"
  "sp_parent (if b then SetAttributes s kvs else s) = sp_parent s"
  "sp_status (if b then SetAttributes s kvs else s) = sp_status s"
  by simp_all

lemma txn_ops [simp]:
  "root (log_line l m t) = root t" "children (log_line l m t) = children t"
  "calls (log_line l m t) = calls t" "metrics (log_line l m t) = metrics t"
  "root (on_root f t) = f (root t)" "children (on_root f t) = children t"
  "calls (on_root f t) = calls t" "metrics (on_root f t) = metrics t"
  "root (end_child s t) = root t" "children (end_child s t) = children t @ [End s]"
  "calls (end_child s t) = calls t" "metrics (end_child s t) = metrics t"
  "root (snd (client_Do nw req t)) = root t" "children (snd (client_Do nw req t)) = children t"
  "calls (snd (client_Do nw req t)) = calls t @ [req]"
  "metrics (snd (client_Do nw req t)) = metrics t"
  "fst (client_Do nw req t) = nw (length (calls t)) req"
  by (simp_all add: log_line_def on_root_def end_child_def client_Do_def)

lemma tree_simps [simp]:
  "tree (log_line l m t) = tree t" "tree (on_root f t) = tree t"
  "tree (end_child s t) = tree t @ [(sp_name s, sp_kind s, sp_parent s)]"
  "tree (snd (client_Do nw req t)) = tree t"
  "tree \<lparr>root = r, children = cs, calls = k, logs = ls, metrics = ms\<rparr> =
     map (\<lambda>s. (sp_name s, sp_kind s, sp_parent s)) cs"
  by (simp_all add: tree_def)

lemma metrics_update [simp]:
  "tree (t\<lparr>metrics := ms\<rparr>) = tree t"
  by (simp add: tree_def)

lemma return_proj [simp]:
  "tree (if b then on_root f t else t) = tree t"
  "calls (if b then on_root f t else t) = calls t"
  "metrics (if b then on_root f t else t) = metrics t"
  "sp_status (root (if b then on_root End t else t)) = sp_status (root t)"
  "sp_kind (root (if b then on_root End t else t)) = sp_kind (root t)"
  "sp_parent (root (if b then on_root End t else t)) = sp_parent (root t)"
  "sp_name (root (if b then on_root End t else t)) = sp_name (root t)"
  by simp_all

lemma span_names_tree: "span_names t = map fst (tree t)"
  by (simp add: span_names_def tree_def)

text \<open>A warning logged on a failed call changes the log only.\<close>

lemma case_log [simp]:
  "root (case x of None \<Rightarrow> t | Some e \<Rightarrow> log_line l m t) = root t"
  "tree (case x of None \<Rightarrow> t | Some e \<Rightarrow> log_line l m t) = tree t"
  "calls (case x of None \<Rightarrow> t | Some e \<Rightarrow> log_line l m t) = calls t"
  "metrics (case x of None \<Rightarrow> t | Some e \<Rightarrow> log_line l m t) = metrics t"
  "root (case y of Inl e \<Rightarrow> log_line l m t | Inr n \<Rightarrow> t) = root t"
  "tree (case y of Inl e \<Rightarrow> log_line l m t | Inr n \<Rightarrow> t) = tree t"
  "calls (case y of Inl e \<Rightarrow> log_line l m t | Inr n \<Rightarrow> t) = calls t"
  "metrics (case y of Inl e \<Rightarrow> log_line l m t | Inr n \<Rightarrow> t) = metrics t"
  "root (case r of TransportError e \<Rightarrow> log_line l m t | Response c b \<Rightarrow> t) = root t"
  "tree (case r of TransportError e \<Rightarrow> log_line l m t | Response c b \<Rightarrow> t) = tree t"
  "calls (case r of TransportError e \<Rightarrow> log_line l m t | Response c b \<Rightarrow> t) = calls t"
  "metrics (case r of TransportError e \<Rightarrow> log_line l m t | Response c b \<Rightarrow> t) = metrics t"
  by (simp_all split: option.splits sum.splits response.splits)

lemma addToCart_proj [simp]:
  "root (snd (addToCart cfg nw u p t)) = root t"
  "tree (snd (addToCart cfg nw u p t)) = tree t"
  "metrics (snd (addToCart cfg nw u p t)) = metrics t"
  "calls (snd (addToCart cfg nw u p t)) =
     calls t @ [POST (CartURL cfg @ ''/cart/add?user_id='' @ u @ ''&product_id='' @ p)]"
  by (simp_all add: addToCart_def Let_def split_beta split: response.splits)

lemma getCart_proj [simp]:
  "root (snd (getCart cfg nw u t)) = root t"
  "tree (snd (getCart cfg nw u t)) = tree t"
  "metrics (snd (getCart cfg nw u t)) = metrics t"
  "calls (snd (getCart cfg nw u t)) = calls t @ [GET (CartURL cfg @ ''/cart?user_id='' @ u)]"
  by (simp_all add: getCart_def Let_def split_beta split: response.splits)

lemma emptyCart_proj [simp]:
  "root (snd (emptyCart cfg nw u t)) = root t"
  "tree (snd (emptyCart cfg nw u t)) = tree t"
  "metrics (snd (emptyCart cfg nw u t)) = metrics t"
  "calls (snd (emptyCart cfg nw u t)) =
     calls t @ [POST (CartURL cfg @ ''/cart/empty?user_id='' @ u)]"
  by (simp_all add: emptyCart_def Let_def split_beta split: response.splits)

text \<open>The loop over the three items, unrolled.\<close>

lemma addItems_proj [simp]:
  "root (snd (addItems cfg nw u draw 0 3 [] t)) = root t"
  "tree (snd (addItems cfg nw u draw 0 3 [] t)) = tree t"
  "metrics (snd (addItems cfg nw u draw 0 3 [] t)) = metrics t"
  "calls (snd (addItems cfg nw u draw 0 3 [] t)) =
     calls t @
     [POST (CartURL cfg @ ''/cart/add?user_id='' @ u @ ''&product_id='' @ GetProductID (draw 0)),
      POST (CartURL cfg @ ''/cart/add?user_id='' @ u @ ''&product_id='' @ GetProductID (draw 1)),
      POST (CartURL cfg @ ''/cart/add?user_id='' @ u @ ''&product_id='' @ GetProductID (draw 2))]"
  "fst (addItems cfg nw u draw 0 3 [] t) =
     [GetProductID (draw 0), GetProductID (draw 1), GetProductID (draw 2)]"
  by (simp_all add: numeral_3_eq_3 numeral_2_eq_2 Let_def split_beta)

lemma prepareOrderItems_proj [simp]:
  "root (snd (prepareOrderItems cfg nw rn u cur t)) = root t"
  "tree (snd (prepareOrderItems cfg nw rn u cur t)) =
     tree t @
     [(''prepareOrderItemsAndShippingQuoteFromCart'', SpanKindInternal, Some (sp_name (root t)))]"
  "metrics (snd (prepareOrderItems cfg nw rn u cur t)) = metrics t"
  "calls (snd (prepareOrderItems cfg nw rn u cur t)) =
     calls t @
     [POST (CartURL cfg @ ''/cart/add?user_id='' @ u @ ''&product_id='' @
            GetProductID (r_product rn 0)),
      POST (CartURL cfg @ ''/cart/add?user_id='' @ u @ ''&product_id='' @
            GetProductID (r_product rn 1)),
      POST (CartURL cfg @ ''/cart/add?user_id='' @ u @ ''&product_id='' @
            GetProductID (r_product rn 2)),
      GET (CartURL cfg @ ''/cart?user_id='' @ u),
      POST (CartURL cfg @ ''/cart/empty?user_id='' @ u)]"
  "fst (prepareOrderItems cfg nw rn u cur t) =
     Inr \<lparr>itemCount = 3, total = rand_Intn 50000 (r_total rn) + 1000,
          shippingCost = rand_Intn 1000 (r_shipping rn) + 100,
          productIDs = [GetProductID (r_product rn 0), GetProductID (r_product rn 1),
                        GetProductID (r_product rn 2)]\<rparr>"
  by (simp_all add: prepareOrderItems_def numeral_2_eq_2 Let_def split_beta)

text \<open>\<open>prepareOrderItems\<close> has no failing path: the error branch of its caller is dead.\<close>

lemma prepareOrderItems_no_error: "\<not> isl (fst (prepareOrderItems cfg nw rn u cur t))"
  by simp

lemma getProductDetails_proj [simp]:
  "root (getProductDetails cfg nw [p0, p1, p2] t) = root t"
  "tree (getProductDetails cfg nw [p0, p1, p2] t) =
     tree t @ [(''getProductDetails'', SpanKindClient, Some (sp_name (root t)))]"
  "metrics (getProductDetails cfg nw [p0, p1, p2] t) = metrics t"
  "calls (getProductDetails cfg nw [p0, p1, p2] t) =
     calls t @
     [GET (ProductCatalogURL cfg @ ''/products/'' @ p0),
      GET (ProductCatalogURL cfg @ ''/products/'' @ p1),
      GET (ProductCatalogURL cfg @ ''/products/'' @ p2)]"
  by (simp_all add: getProductDetails_def Let_def split_beta)

lemma getCurrencyConversion_proj [simp]:
  "root (getCurrencyConversion cfg nw cur a t) = root t"
  "tree (getCurrencyConversion cfg nw cur a t) =
     tree t @ [(''getCurrencyConversion'', SpanKindClient, Some (sp_name (root t)))]"
  "metrics (getCurrencyConversion cfg nw cur a t) = metrics t"
  "calls (getCurrencyConversion cfg nw cur a t) =
     calls t @
     [GET (CurrencyURL cfg @ ''/convert?from=USD&to='' @ cur @ ''&amount='' @ fmt_2f a)]"
  by (simp_all add: getCurrencyConversion_def Let_def split_beta split: response.splits)

lemma getRecommendations_proj [simp]:
  "root (getRecommendations cfg nw u pids t) = root t"
  "tree (getRecommendations cfg nw u pids t) =
     tree t @ [(''getRecommendations'', SpanKindClient, Some (sp_name (root t)))]"
  "metrics (getRecommendations cfg nw u pids t) = metrics t"
  "calls (getRecommendations cfg nw u pids t) =
     calls t @ [GET (RecommendationURL cfg @ ''/recommendations?user_id='' @ u)]"
  by (simp_all add: getRecommendations_def Let_def split_beta split: response.splits)

text \<open>\<open>getAds\<close> leaves the same trace whatever the ad service answers.\<close>

lemma getAds_proj [simp]:
  "root (getAds cfg nw r t) = root t"
  "tree (getAds cfg nw r t) = tree t @ [(''getAds'', SpanKindClient, Some (sp_name (root t)))]"
  "metrics (getAds cfg nw r t) = metrics t"
  "calls (getAds cfg nw r t) =
     calls t @ [GET (AdURL cfg @ ''/ads?category='' @ ads_category r)]"
  by (simp_all add: getAds_def ads_category_def Let_def split_beta split: response.splits)

lemma chargeCard_proj [simp]:
  "root (snd (chargeCard cfg nw a cur t)) = root t"
  "tree (snd (chargeCard cfg nw a cur t)) =
     tree t @ [(''chargeCard'', SpanKindInternal, Some (sp_name (root t)))]"
  "metrics (snd (chargeCard cfg nw a cur t)) = metrics t"
  "calls (snd (chargeCard cfg nw a cur t)) = calls t @ [POST (PaymentURL cfg @ ''/charge'')]"
  "isl (fst (chargeCard cfg nw a cur t)) =
     failed (nw (length (calls t)) (POST (PaymentURL cfg @ ''/charge'')))"
  by (simp_all add: chargeCard_def failed_def Let_def split_beta split: response.splits)

lemma shipOrder_proj [simp]:
  "root (snd (shipOrder cfg nw n t)) = root t"
  "tree (snd (shipOrder cfg nw n t)) =
     tree t @ [(''shipOrder'', SpanKindInternal, Some (sp_name (root t)))]"
  "metrics (snd (shipOrder cfg nw n t)) = metrics t"
  "calls (snd (shipOrder cfg nw n t)) = calls t @ [POST (ShippingURL cfg @ ''/ship'')]"
  "isl (fst (shipOrder cfg nw n t)) =
     failed (nw (length (calls t)) (POST (ShippingURL cfg @ ''/ship'')))"
  by (simp_all add: shipOrder_def failed_def Let_def split_beta split: response.splits)

lemma sendOrderConfirmation_proj [simp]:
  "root (snd (sendOrderConfirmation cfg nw oid u t)) = root t"
  "tree (snd (sendOrderConfirmation cfg nw oid u t)) =
     tree t @ [(''sendOrderConfirmation'', SpanKindInternal, Some (sp_name (root t)))]"
  "metrics (snd (sendOrderConfirmation cfg nw oid u t)) = metrics t"
  "calls (snd (sendOrderConfirmation cfg nw oid u t)) = calls t @ [POST (EmailURL cfg @ ''/send'')]"
  by (simp_all add: sendOrderConfirmation_def Let_def split_beta split: response.splits)

lemma publishToKafka_proj [simp]:
  "root (publishToKafka cfg nw oid t) = root t"
  "tree (publishToKafka cfg nw oid t) =
     tree t @ [(''orders publish'', SpanKindProducer, Some (sp_name (root t)))]"
  "metrics (publishToKafka cfg nw oid t) = metrics t"
  "calls (publishToKafka cfg nw oid t) =
     calls t @ [POST (AccountingURL cfg @ ''/consume''), POST (FraudDetectionURL cfg @ ''/consume'')]"
  by (simp_all add: publishToKafka_def Let_def split_beta)

subsection \<open>The three ways a transaction ends\<close>

lemma eleven: "Suc (Suc (Suc (Suc (Suc (Suc (Suc (Suc (Suc (Suc (Suc 0)))))))))) = 11"
  by simp

lemma twelve: "Suc (Suc (Suc (Suc (Suc (Suc (Suc (Suc (Suc (Suc (Suc (Suc 0))))))))))) = 12"
  by simp

lemmas run_placeOrder =
  placeOrder_def entry_span_def Let_def split_beta sum.case_eq_if eleven twelve
  calls_before_charge_def charge_request_def ship_request_def calls_after_ship_def

lemma placeOrder_charge_failed:
  assumes "failed (nw 11 (charge_request cfg))"
  shows "tree (placeOrder RecordError cfg nw rn c) =
           [(''prepareOrderItemsAndShippingQuoteFromCart'', SpanKindInternal,
             Some (sp_name (entry_span c))),
            (''getProductDetails'', SpanKindClient, Some (sp_name (entry_span c))),
            (''getCurrencyConversion'', SpanKindClient, Some (sp_name (entry_span c))),
            (''getRecommendations'', SpanKindClient, Some (sp_name (entry_span c))),
            (''getAds'', SpanKindClient, Some (sp_name (entry_span c))),
            (''chargeCard'', SpanKindInternal, Some (sp_name (entry_span c)))]"
    and "calls (placeOrder RecordError cfg nw rn c) =
           calls_before_charge cfg rn @ [charge_request cfg]"
    and "metrics (placeOrder RecordError cfg nw rn c) = []"
    and "\<forall>s e. sp_status (RecordError s e) = Error \<Longrightarrow>
           sp_status (root (placeOrder RecordError cfg nw rn c)) = Error"
  using assms by (simp_all add: run_placeOrder)

text \<open>The root span after a failed charge, with the \<open>RecordError\<close> of the Go SDK.\<close>

lemma span_events:
  "sp_events (SetAttributes s kvs) = sp_events s"
  "sp_events (AddEvent s n kvs) = sp_events s @ [(n, kvs)]"
  "sp_events (End s) = sp_events s"
  "sp_events (tracer_Start p n k) = []"
  "sp_events (if b then SetAttributes s kvs else s) = sp_events s"
  "sp_events (root (if b then on_root End t else t)) = sp_events (root t)"
  by (simp_all add: SetAttributes_def AddEvent_def End_def tracer_Start_def)

lemma placeOrder_charge_failed_sdk:
  assumes "failed (nw 11 (charge_request cfg))"
  shows "sp_status (root (placeOrder sdk_RecordError cfg nw rn c)) = sp_status (entry_span c)"
    and "map fst (sp_events (root (placeOrder sdk_RecordError cfg nw rn c))) =
           map fst (sp_events (entry_span c)) @
           [''prepared'', ''product_details_fetched'', ''currency_converted'',
            ''recommendations_fetched'', ''ads_fetched'', ''exception'']"
  using assms by (simp_all add: run_placeOrder sdk_RecordError_def span_events)

lemma placeOrder_ship_failed:
  assumes "\<not> failed (nw 11 (charge_request cfg))" and "failed (nw 12 (ship_request cfg))"
  shows "tree (placeOrder RecordError cfg nw rn c) =
           [(''prepareOrderItemsAndShippingQuoteFromCart'', SpanKindInternal,
             Some (sp_name (entry_span c))),
            (''getProductDetails'', SpanKindClient, Some (sp_name (entry_span c))),
            (''getCurrencyConversion'', SpanKindClient, Some (sp_name (entry_span c))),
            (''getRecommendations'', SpanKindClient, Some (sp_name (entry_span c))),
            (''getAds'', SpanKindClient, Some (sp_name (entry_span c))),
            (''chargeCard'', SpanKindInternal, Some (sp_name (entry_span c))),
            (''shipOrder'', SpanKindInternal, Some (sp_name (entry_span c)))]"
    and "calls (placeOrder RecordError cfg nw rn c) =
           calls_before_charge cfg rn @ [charge_request cfg, ship_request cfg]"
    and "metrics (placeOrder RecordError cfg nw rn c) = []"
    and "\<forall>s e. sp_status (RecordError s e) = Error \<Longrightarrow>
           sp_status (root (placeOrder RecordError cfg nw rn c)) = Error"
  using assms by (simp_all add: run_placeOrder)

lemma placeOrder_completed:
  assumes "\<not> failed (nw 11 (charge_request cfg))" and "\<not> failed (nw 12 (ship_request cfg))"
  shows "tree (placeOrder RecordError cfg nw rn c) =
           [(''prepareOrderItemsAndShippingQuoteFromCart'', SpanKindInternal,
             Some (sp_name (entry_span c))),
            (''getProductDetails'', SpanKindClient, Some (sp_name (entry_span c))),
            (''getCurrencyConversion'', SpanKindClient, Some (sp_name (entry_span c))),
            (''getRecommendations'', SpanKindClient, Some (sp_name (entry_span c))),
            (''getAds'', SpanKindClient, Some (sp_name (entry_span c))),
            (''chargeCard'', SpanKindInternal, Some (sp_name (entry_span c))),
            (''shipOrder'', SpanKindInternal, Some (sp_name (entry_span c))),
            (''sendOrderConfirmation'', SpanKindInternal, Some (sp_name (entry_span c))),
            (''orders publish'', SpanKindProducer, Some (sp_name (entry_span c)))]"
    and "calls (placeOrder RecordError cfg nw rn c) =
           calls_before_charge cfg rn @ [charge_request cfg, ship_request cfg] @
           calls_after_ship cfg"
    and "succeeded (placeOrder RecordError cfg nw rn c)"
    and "sp_status (root (placeOrder RecordError cfg nw rn c)) = sp_status (entry_span c)"
    and "sp_kind (root (placeOrder RecordError cfg nw rn c)) = sp_kind (entry_span c)"
    and "sp_parent (root (placeOrder RecordError cfg nw rn c)) = sp_parent (entry_span c)"
    and "sp_name (root (placeOrder RecordError cfg nw rn c)) = sp_name (entry_span c)"
  using assms by (simp_all add: run_placeOrder succeeded_def)


subsection \<open>The two entry points\<close>

lemma batch_entry [simp]:
  "sp_name (entry_span \<lparr>ctx_span = None, ctx_baggage = b\<rparr>) = ''PlaceOrder''"
  "sp_kind (entry_span \<lparr>ctx_span = None, ctx_baggage = b\<rparr>) = SpanKindServer"
  "sp_parent (entry_span \<lparr>ctx_span = None, ctx_baggage = b\<rparr>) = None"
  "sp_status (entry_span \<lparr>ctx_span = None, ctx_baggage = b\<rparr>) = Unset"
  by (simp_all add: entry_span_def)

lemma http_entry [simp]:
  "entry_span \<lparr>ctx_span = Some s, ctx_baggage = b\<rparr> = s"
  by (simp add: entry_span_def)

lemma checkout_handler_txn:
  "tree (snd (checkout_handler RecordError cfg nw rn b)) =
     tree (placeOrder RecordError cfg nw rn
            \<lparr>ctx_span = Some (tracer_Start None ''PlaceOrder'' SpanKindServer), ctx_baggage = b\<rparr>)"
  "calls (snd (checkout_handler RecordError cfg nw rn b)) =
     calls (placeOrder RecordError cfg nw rn
            \<lparr>ctx_span = Some (tracer_Start None ''PlaceOrder'' SpanKindServer), ctx_baggage = b\<rparr>)"
  "succeeded (snd (checkout_handler RecordError cfg nw rn b)) =
     succeeded (placeOrder RecordError cfg nw rn
            \<lparr>ctx_span = Some (tracer_Start None ''PlaceOrder'' SpanKindServer), ctx_baggage = b\<rparr>)"
  "root (snd (checkout_handler RecordError cfg nw rn b)) =
     End (root (placeOrder RecordError cfg nw rn
            \<lparr>ctx_span = Some (tracer_Start None ''PlaceOrder'' SpanKindServer), ctx_baggage = b\<rparr>))"
  by (simp_all add: checkout_handler_def Let_def succeeded_def)

text \<open>The facts about a completed transaction, for either entry point.\<close>

lemma entry_completed:
  assumes "t = batch_order RecordError cfg nw rn \<or>
           t = snd (checkout_handler RecordError cfg nw rn b)"
    and "\<not> failed (nw 11 (charge_request cfg))" and "\<not> failed (nw 12 (ship_request cfg))"
  shows "tree t =
           [(''prepareOrderItemsAndShippingQuoteFromCart'', SpanKindInternal, Some ''PlaceOrder''),
            (''getProductDetails'', SpanKindClient, Some ''PlaceOrder''),
            (''getCurrencyConversion'', SpanKindClient, Some ''PlaceOrder''),
            (''getRecommendations'', SpanKindClient, Some ''PlaceOrder''),
            (''getAds'', SpanKindClient, Some ''PlaceOrder''),
            (''chargeCard'', SpanKindInternal, Some ''PlaceOrder''),
            (''shipOrder'', SpanKindInternal, Some ''PlaceOrder''),
            (''sendOrderConfirmation'', SpanKindInternal, Some ''PlaceOrder''),
            (''orders publish'', SpanKindProducer, Some ''PlaceOrder'')]"
    and "calls t =
           calls_before_charge cfg rn @ [charge_request cfg, ship_request cfg] @
           calls_after_ship cfg"
    and "succeeded t"
    and "sp_status (root t) = Unset"
    and "sp_kind (root t) = SpanKindServer"
    and "sp_parent (root t) = None"
    and "sp_name (root t) = ''PlaceOrder''"
  using assms
  by (auto simp: batch_order_def checkout_handler_txn placeOrder_completed)


lemma entry_first_six:
  assumes "t = batch_order RecordError cfg nw rn \<or>
           t = snd (checkout_handler RecordError cfg nw rn b)"
  shows "take 6 (span_names t) =
           [''prepareOrderItemsAndShippingQuoteFromCart'', ''getProductDetails'',
            ''getCurrencyConversion'', ''getRecommendations'', ''getAds'', ''chargeCard'']"
proof -
  have "take 6 (map fst (tree (placeOrder RecordError cfg nw rn c))) =
          [''prepareOrderItemsAndShippingQuoteFromCart'', ''getProductDetails'',
           ''getCurrencyConversion'', ''getRecommendations'', ''getAds'', ''chargeCard'']" for c
  proof (cases "failed (nw 11 (charge_request cfg))")
    case True
    then show ?thesis by (simp add: placeOrder_charge_failed(1))
  next
    case charge: False
    show ?thesis
    proof (cases "failed (nw 12 (ship_request cfg))")
      case True
      with charge show ?thesis by (simp add: placeOrder_ship_failed(1))
    next
      case False
      with charge show ?thesis by (simp add: placeOrder_completed(1))
    qed
  qed
  with assms show ?thesis
    by (auto simp: span_names_tree batch_order_def checkout_handler_txn)
qed

subsection \<open>Evaluation on the concrete networks\<close>



lemma cfg0_urls [simp]:
  "charge_request cfg0 = POST ''http://localhost:8081/charge''"
  "ship_request cfg0 = POST ''http://localhost:8082/ship''"
  "ads_request cfg0 rnd0 = GET ''http://localhost:8087/ads?category=home''"
  by (simp_all add: charge_request_def ship_request_def ads_request_def ads_category_def
      rand_Intn_def rnd0_def cfg0_def load_config_def getEnv_def)

subsection \<open>Claims about the orchestrator\<close>

text \<open>
  C1, as the specification states it, fails: with the payment service unreachable the
  charge fails, and the root span of the transaction has the status unset, not error, in
  batch mode and behind the handler of \<open>/checkout\<close> alike. \<open>placeOrder\<close> calls
  \<open>RecordError\<close> on the root span and nothing else, and \<open>RecordError\<close> records an event.
\<close>

theorem charge_failure_status_counterexample:
  "failed (net_down [''http://localhost:8081/charge''] 11 (charge_request cfg0)) \<and>
   sp_status (root (batch_order sdk_RecordError cfg0
                      (net_down [''http://localhost:8081/charge'']) rnd0)) = Unset \<and>
   sp_status (root (batch_order sdk_RecordError cfg0
                      (net_down [''http://localhost:8081/charge'']) rnd0)) \<noteq> Error \<and>
   sp_status (root (snd (checkout_handler sdk_RecordError cfg0
                           (net_down [''http://localhost:8081/charge'']) rnd0 []))) \<noteq> Error"
proof -
  have down: "failed (net_down [''http://localhost:8081/charge''] 11 (charge_request cfg0))"
    by (simp add: net_down_def failed_def)
  note batch = placeOrder_charge_failed_sdk(1)
    [where nw = "net_down [''http://localhost:8081/charge'']" and cfg = cfg0 and rn = rnd0
       and c = "\<lparr>ctx_span = None, ctx_baggage = []\<rparr>", OF down]
  note http = placeOrder_charge_failed_sdk(1)
    [where nw = "net_down [''http://localhost:8081/charge'']" and cfg = cfg0 and rn = rnd0
       and c = "\<lparr>ctx_span = Some (tracer_Start None ''PlaceOrder'' SpanKindServer),
                ctx_baggage = []\<rparr>", OF down]
  show ?thesis
    using down by (simp add: batch_order_def checkout_handler_txn(4) batch http)
qed

text \<open>
  C1, amended. For every checkout transaction in which the ChargeCard step fails (the
  payment call, which is outbound call number 11 counted from 0, returns a transport error
  or a status other than 200): the steps that ran are exactly the six up to ChargeCard, the
  requests sent are the eleven before the charge and the charge itself, so ShipOrder,
  SendEmail and PublishEvent are never invoked, and the order is not counted as a success;
  this holds whatever \<open>RecordError\<close> does. The error is recorded on the root span as an
  exception event, after the events of the five steps before the charge, and the status of
  the root span stays unset in batch mode and behind the handler of \<open>/checkout\<close>: the
  orchestrator never sets a span status.
\<close>

theorem charge_failure_aborts:
  assumes "failed (nw 11 (charge_request cfg))"
  shows "span_names (placeOrder RecordError cfg nw rn c) =
           [''prepareOrderItemsAndShippingQuoteFromCart'', ''getProductDetails'',
            ''getCurrencyConversion'', ''getRecommendations'', ''getAds'', ''chargeCard''] \<and>
         ''shipOrder'' \<notin> set (span_names (placeOrder RecordError cfg nw rn c)) \<and>
         ''sendOrderConfirmation'' \<notin> set (span_names (placeOrder RecordError cfg nw rn c)) \<and>
         ''orders publish'' \<notin> set (span_names (placeOrder RecordError cfg nw rn c)) \<and>
         calls (placeOrder RecordError cfg nw rn c) =
           calls_before_charge cfg rn @ [charge_request cfg] \<and>
         \<not> succeeded (placeOrder RecordError cfg nw rn c) \<and>
         sp_status (root (batch_order sdk_RecordError cfg nw rn)) = Unset \<and>
         sp_status (root (snd (checkout_handler sdk_RecordError cfg nw rn baggage))) = Unset \<and>
         map fst (sp_events (root (batch_order sdk_RecordError cfg nw rn))) =
           [''prepared'', ''product_details_fetched'', ''currency_converted'',
            ''recommendations_fetched'', ''ads_fetched'', ''exception'']"
proof -
  have abort: "span_names (placeOrder RecordError cfg nw rn c) =
           [''prepareOrderItemsAndShippingQuoteFromCart'', ''getProductDetails'',
            ''getCurrencyConversion'', ''getRecommendations'', ''getAds'', ''chargeCard'']"
    "calls (placeOrder RecordError cfg nw rn c) = calls_before_charge cfg rn @ [charge_request cfg]"
    "\<not> succeeded (placeOrder RecordError cfg nw rn c)"
    using assms by (simp_all add: span_names_tree succeeded_def placeOrder_charge_failed)
  have status: "sp_status (root (batch_order sdk_RecordError cfg nw rn)) = Unset"
    "sp_status (root (snd (checkout_handler sdk_RecordError cfg nw rn baggage))) = Unset"
    using assms
    by (simp_all add: batch_order_def checkout_handler_txn(4) placeOrder_charge_failed_sdk(1))
  have events: "map fst (sp_events (root (batch_order sdk_RecordError cfg nw rn))) =
           [''prepared'', ''product_details_fetched'', ''currency_converted'',
            ''recommendations_fetched'', ''ads_fetched'', ''exception'']"
    using assms
    by (simp add: batch_order_def placeOrder_charge_failed_sdk(2) entry_span_def span_events)
  from abort status events show ?thesis
    by simp
qed

theorem charge_failure_aborts_witness:
  "failed (net_down [''http://localhost:8081/charge''] 11 (charge_request cfg0)) \<and>
   span_names (batch_order sdk_RecordError cfg0 (net_down [''http://localhost:8081/charge''])
                 rnd0) =
     [''prepareOrderItemsAndShippingQuoteFromCart'', ''getProductDetails'',
      ''getCurrencyConversion'', ''getRecommendations'', ''getAds'', ''chargeCard''] \<and>
   sp_status (root (batch_order sdk_RecordError cfg0
                      (net_down [''http://localhost:8081/charge'']) rnd0)) = Unset \<and>
   map fst (sp_events (root (batch_order sdk_RecordError cfg0
                               (net_down [''http://localhost:8081/charge'']) rnd0))) =
     [''prepared'', ''product_details_fetched'', ''currency_converted'',
      ''recommendations_fetched'', ''ads_fetched'', ''exception'']"
proof -
  have down: "failed (net_down [''http://localhost:8081/charge''] 11 (charge_request cfg0))"
    by (simp add: net_down_def failed_def)
  show ?thesis
    using charge_failure_aborts [where nw = "net_down [''http://localhost:8081/charge'']"
        and cfg = cfg0 and RecordError = sdk_RecordError and rn = rnd0
        and c = "\<lparr>ctx_span = None, ctx_baggage = []\<rparr>", OF down] down
    by (simp add: batch_order_def)
qed

text \<open>
  C2, as the specification states it, fails: with the payment service unreachable the
  charge fails and the transaction is not counted as a success, yet the handler of
  \<open>/checkout\<close> answers 200 with the body of a placed order.
\<close>

theorem checkout_response_counterexample:
  \<open>failed (net_down [''http://localhost:8081/charge''] 11 (charge_request cfg0)) \<and>
   \<not> succeeded (snd (checkout_handler record_error_spec cfg0
                       (net_down [''http://localhost:8081/charge'']) rnd0 [])) \<and>
   code (fst (checkout_handler record_error_spec cfg0
                (net_down [''http://localhost:8081/charge'']) rnd0 [])) = 200 \<and>
   body (fst (checkout_handler record_error_spec cfg0
                (net_down [''http://localhost:8081/charge'']) rnd0 [])) =
     ''{"status": "order_placed"}''\<close>
proof -
  have down: "failed (net_down [''http://localhost:8081/charge''] 11 (charge_request cfg0))"
    by (simp add: net_down_def failed_def)
  note no_metric = placeOrder_charge_failed(3)
    [where nw = "net_down [''http://localhost:8081/charge'']" and cfg = cfg0
       and RecordError = record_error_spec and rn = rnd0
       and c = "\<lparr>ctx_span = Some (tracer_Start None ''PlaceOrder'' SpanKindServer),
                ctx_baggage = []\<rparr>", OF down]
  have "\<not> succeeded (placeOrder record_error_spec cfg0
                       (net_down [''http://localhost:8081/charge'']) rnd0
                       \<lparr>ctx_span = Some (tracer_Start None ''PlaceOrder'' SpanKindServer),
                        ctx_baggage = []\<rparr>)"
    unfolding succeeded_def no_metric by simp
  then have "\<not> succeeded (snd (checkout_handler record_error_spec cfg0
                       (net_down [''http://localhost:8081/charge'']) rnd0 []))"
    by (simp add: checkout_handler_txn(3))
  with down show ?thesis
    by (simp add: checkout_handler_def Let_def)
qed

text \<open>
  C2, amended. \<open>placeOrder\<close> returns no value, and the handler of \<open>/checkout\<close> writes its
  answer after it unconditionally: for every inbound checkout request, whatever the
  downstream services answer and so also when ChargePayment or ShipOrder fails, the
  response is 200 with content type \<open>application/json\<close> and the body
  \<open>{"status": "order_placed"}\<close>.
\<close>

theorem checkout_response_always_200:
  \<open>fst (checkout_handler RecordError cfg nw rn baggage) =
     \<lparr>code = 200, content_type = Some ''application/json'',
      body = ''{"status": "order_placed"}''\<rparr>\<close>
  by (simp add: checkout_handler_def Let_def)

text \<open>
  C3, as the specification states it, fails twice. With only the ad service unreachable,
  all nine steps run and the order succeeds, but the root span status is unset, not ok:
  nothing in the orchestrator sets a status on success. With the ad service and the payment
  service both unreachable, FetchAds fails and ShipOrder does not run.
\<close>

theorem ads_failure_counterexample:
  "failed (net_down [''http://localhost:8087/ads?category=home''] 10 (ads_request cfg0 rnd0)) \<and>
   succeeded (batch_order record_error_spec cfg0
                (net_down [''http://localhost:8087/ads?category=home'']) rnd0) \<and>
   sp_status (root (batch_order record_error_spec cfg0
                (net_down [''http://localhost:8087/ads?category=home'']) rnd0)) \<noteq> Ok \<and>
   failed (net_down [''http://localhost:8087/ads?category=home'', ''http://localhost:8081/charge'']
             10 (ads_request cfg0 rnd0)) \<and>
   ''shipOrder'' \<notin> set (span_names (batch_order record_error_spec cfg0
                (net_down [''http://localhost:8087/ads?category=home'',
                           ''http://localhost:8081/charge'']) rnd0))"
proof -
  have charge: "\<not> failed (net_down [''http://localhost:8087/ads?category=home''] 11
                            (charge_request cfg0))"
    and ship: "\<not> failed (net_down [''http://localhost:8087/ads?category=home''] 12
                            (ship_request cfg0))"
    by (simp_all add: net_down_def failed_def)
  have down: "failed (net_down [''http://localhost:8087/ads?category=home'',
                                ''http://localhost:8081/charge''] 11 (charge_request cfg0))"
    by (simp add: net_down_def failed_def)
  have ads: "failed (net_down us 10 (ads_request cfg0 rnd0))"
    if "''http://localhost:8087/ads?category=home'' \<in> set us" for us
    using that by (simp add: net_down_def failed_def)
  note completed = entry_completed(3,4)
    [where t = "batch_order record_error_spec cfg0
                  (net_down [''http://localhost:8087/ads?category=home'']) rnd0"
       and RecordError = record_error_spec and cfg = cfg0 and rn = rnd0
       and nw = "net_down [''http://localhost:8087/ads?category=home'']",
     OF disjI1 [OF refl] charge ship]
  note aborted = placeOrder_charge_failed(1)
    [where nw = "net_down [''http://localhost:8087/ads?category=home'',
                           ''http://localhost:8081/charge'']"
       and cfg = cfg0 and RecordError = record_error_spec and rn = rnd0
       and c = "\<lparr>ctx_span = None, ctx_baggage = []\<rparr>", OF down]
  have "''shipOrder'' \<notin> set (span_names (batch_order record_error_spec cfg0
                (net_down [''http://localhost:8087/ads?category=home'',
                           ''http://localhost:8081/charge'']) rnd0))"
    unfolding span_names_tree batch_order_def aborted by simp
  with completed ads show ?thesis
    by simp
qed

text \<open>
  C3, amended. For every checkout transaction in which the FetchAds step fails (the ad
  call, outbound call number 10, returns a transport error or a status other than 200),
  ChargeCard is still invoked as the next step; and when ChargeCard and ShipOrder succeed,
  all nine steps run (ShipOrder, SendEmail and PublishEvent included), the order is counted
  as a success and the root span ends with its status unset, which is not error. This
  holds for the batch entry point and for the HTTP handler.
\<close>

theorem ads_failure_tolerated:
  assumes "t = batch_order RecordError cfg nw rn \<or>
           t = snd (checkout_handler RecordError cfg nw rn baggage)"
    and "failed (nw 10 (ads_request cfg rn))"
  shows "take 6 (span_names t) =
           [''prepareOrderItemsAndShippingQuoteFromCart'', ''getProductDetails'',
            ''getCurrencyConversion'', ''getRecommendations'', ''getAds'', ''chargeCard''] \<and>
         (\<not> failed (nw 11 (charge_request cfg)) \<and> \<not> failed (nw 12 (ship_request cfg)) \<longrightarrow>
            span_names t =
              [''prepareOrderItemsAndShippingQuoteFromCart'', ''getProductDetails'',
               ''getCurrencyConversion'', ''getRecommendations'', ''getAds'', ''chargeCard'',
               ''shipOrder'', ''sendOrderConfirmation'', ''orders publish''] \<and>
            succeeded t \<and> sp_status (root t) = Unset \<and> sp_status (root t) \<noteq> Error)"
  using assms(1) entry_first_six [OF assms(1)]
  by (simp add: span_names_tree entry_completed(1,3,4) [where b = baggage])

theorem ads_failure_tolerated_witness:
  "failed (net_down [''http://localhost:8087/ads?category=home''] 10 (ads_request cfg0 rnd0)) \<and>
   \<not> failed (net_down [''http://localhost:8087/ads?category=home''] 11 (charge_request cfg0)) \<and>
   \<not> failed (net_down [''http://localhost:8087/ads?category=home''] 12 (ship_request cfg0)) \<and>
   span_names (batch_order record_error_spec cfg0
                 (net_down [''http://localhost:8087/ads?category=home'']) rnd0) =
     [''prepareOrderItemsAndShippingQuoteFromCart'', ''getProductDetails'',
      ''getCurrencyConversion'', ''getRecommendations'', ''getAds'', ''chargeCard'',
      ''shipOrder'', ''sendOrderConfirmation'', ''orders publish''] \<and>
   sp_status (root (batch_order record_error_spec cfg0
                 (net_down [''http://localhost:8087/ads?category=home'']) rnd0)) = Unset"
proof -
  have ads: "failed (net_down [''http://localhost:8087/ads?category=home''] 10
                       (ads_request cfg0 rnd0))"
    by (simp add: net_down_def failed_def)
  show ?thesis
    using ads_failure_tolerated [where nw = "net_down [''http://localhost:8087/ads?category=home'']"
        and cfg = cfg0 and rn = rnd0 and RecordError = record_error_spec
        and t = "batch_order record_error_spec cfg0
                   (net_down [''http://localhost:8087/ads?category=home'']) rnd0"] ads
    by (simp add: net_down_def failed_def)
qed



section \<open>Properties of the cart service\<close>

lemma totalItems_acc: "totalItems fs n = n + totalItems fs 0"
proof (induction fs arbitrary: n)
  case Nil
  show ?case by simp
next
  case (Cons f fs)
  obtain k v where f: "f = (k, v)" by (cases f)
  show ?case
  proof (cases "json_Unmarshal v")
    case None
    with f show ?thesis using Cons.IH [of n] by simp
  next
    case (Some item)
    with f show ?thesis
      using Cons.IH [of "n + Quantity item"] Cons.IH [of "Quantity item"] by simp
  qed
qed

lemma other_fields_absent: "p \<notin> fst ` set fs \<Longrightarrow> other_fields p fs = fs"
  by (induction fs) (auto simp: other_fields_def)

text \<open>Storing a field replaces the quantity of that product and keeps the others.\<close>

lemma totalItems_update:
  assumes "distinct (map fst fs)"
  shows "totalItems (AList.update p (ItemJSON item) fs) 0 =
           Quantity item + totalItems (other_fields p fs) 0"
  using assms
proof (induction fs)
  case Nil
  show ?case by (simp add: other_fields_def json_Unmarshal_def)
next
  case (Cons f fs)
  obtain k v where f: "f = (k, v)" by (cases f)
  show ?case
  proof (cases "k = p")
    case True
    with Cons.prems f have "other_fields p fs = fs"
      by (intro other_fields_absent) auto
    with True f show ?thesis
      using totalItems_acc [of fs "Quantity item"]
      by (simp add: other_fields_def json_Unmarshal_def)
  next
    case False
    from Cons f have IH: "totalItems (AList.update p (ItemJSON item) fs) 0 =
           Quantity item + totalItems (other_fields p fs) 0"
      by simp
    show ?thesis
    proof (cases "json_Unmarshal v")
      case None
      with False f IH show ?thesis by (simp add: other_fields_def)
    next
      case (Some x)
      with False f IH show ?thesis
        using totalItems_acc [of "AList.update p (ItemJSON item) fs" "Quantity x"]
          totalItems_acc [of "other_fields p fs" "Quantity x"]
        by (simp add: other_fields_def)
    qed
  qed
qed

lemma cart_of_distinct: "distinct (map fst (cart_of r u))"
  by (simp add: cart_of_def)

lemma cart_after_add:
  assumes "reachable r" and "u \<noteq> ''''"
  shows \<open>fst (addItemHandler RE rn u p sp r) =
           \<lparr>code = 200, content_type = None,
             body = ''{"status": "added", "user_id": "'' @ u @ ''", "product_id": "'' @
                      added_product rn p @ ''"}''\<rparr>\<close>
    and "reachable (snd (snd (addItemHandler RE rn u p sp r)))"
    and "cart_of (snd (snd (addItemHandler RE rn u p sp r))) u =
           AList.update (added_product rn p)
             (ItemJSON \<lparr>ProductID = added_product rn p, Quantity = added_quantity rn\<rparr>)
             (cart_of r u)"
  using assms
  by (simp_all add: addItemHandler_def HSet_def Let_def cart_of_def added_product_def
      added_quantity_def json_Marshal_def DAList.update.rep_eq)

lemma cart_after_empty:
  assumes "reachable r" and "u \<noteq> ''''"
  shows "code (fst (emptyCartHandler RE rn u sp r)) = 200"
    and "reachable (snd (snd (emptyCartHandler RE rn u sp r)))"
    and "cart_of (snd (snd (emptyCartHandler RE rn u sp r))) u = []"
  using assms
  by (simp_all add: emptyCartHandler_def Del_def Let_def cart_of_def DAList.empty.rep_eq)

lemma get_cart:
  assumes "reachable r" and "u \<noteq> ''''"
  shows \<open>fst (getCartHandler RE rn u sp r) =
          \<lparr>code = 200, content_type = None,
            body = ''{"user_id": "'' @ u @ ''", "items_count": '' @
                   show_int (sint (totalItems (cart_of r u) 0)) @ ''}''\<rparr>\<close>
  using assms
  by (simp add: getCartHandler_def HGetAll_def Let_def cart_of_def)

text \<open>
  C5. The cart store is a map from users to carts, one hash per user. A user is named by a
  non-empty \<open>user_id\<close> (the handlers read the empty string as "no user given" and draw a
  random one), and the store answers. Then \<open>AddItem(u, p)\<close> followed by \<open>GetCart(u)\<close>
  yields, with status 200, an item count that is the quantity just stored for \<open>p\<close>
  (between 1 and 3) plus the quantities of the other products of the cart, summed as Go
  sums them, in 64 bits; and \<open>EmptyCart(u)\<close> followed by \<open>GetCart(u)\<close> yields, with
  status 200, zero items.
\<close>

theorem cart_add_get_empty_get:
  assumes "reachable r" and "u \<noteq> ''''"
  shows
   \<open>code (fst (addItemHandler RE rn u p sp r)) = 200 \<and>
    fst (getCartHandler RE' rn' u sp' (snd (snd (addItemHandler RE rn u p sp r)))) =
      \<lparr>code = 200, content_type = None,
       body = ''{"user_id": "'' @ u @ ''", "items_count": '' @
              show_int (sint (added_quantity rn +
                              totalItems (other_fields (added_product rn p) (cart_of r u)) 0)) @
              ''}''\<rparr> \<and>
    1 \<le> sint (added_quantity rn) \<and> sint (added_quantity rn) \<le> 3 \<and>
    code (fst (emptyCartHandler RE rn u sp r)) = 200 \<and>
    fst (getCartHandler RE' rn' u sp' (snd (snd (emptyCartHandler RE rn u sp r)))) =
      \<lparr>code = 200, content_type = None,
       body = ''{"user_id": "'' @ u @ ''", "items_count": 0}''\<rparr>\<close>
proof -
  have "totalItems (cart_of (snd (snd (addItemHandler RE rn u p sp r))) u) 0 =
          added_quantity rn + totalItems (other_fields (added_product rn p) (cart_of r u)) 0"
    using assms by (simp add: cart_after_add(3) totalItems_update cart_of_distinct)
  moreover have "totalItems (cart_of (snd (snd (emptyCartHandler RE rn u sp r))) u) 0 = 0"
    using assms by (simp add: cart_after_empty(3))
  moreover have "1 \<le> sint (added_quantity rn) \<and> sint (added_quantity rn) \<le> 3"
  proof -
    have "c_quantity rn mod 3 = 0 \<or> c_quantity rn mod 3 = 1 \<or> c_quantity rn mod 3 = 2"
      by arith
    then show ?thesis
      by (auto simp: added_quantity_def rand_Intn_def)
  qed
  moreover have "show_int 0 = ''0''"
    by (simp add: show_int_def show_nat.simps)
  ultimately show ?thesis
    using assms
    by (simp add: get_cart cart_after_add(1,2) cart_after_empty(1,2))
qed

theorem cart_add_get_empty_get_witness:
  \<open>reachable redis0 \<and> ''alice'' \<noteq> '''' \<and>
   body (fst (getCartHandler record_error_spec cart_rnd0 ''alice'' span0
          (snd (snd (addItemHandler record_error_spec cart_rnd0 ''alice'' ''OLJCESPC7Z'' span0
                       redis0))))) =
     ''{"user_id": "alice", "items_count": 4}'' \<and>
   body (fst (getCartHandler record_error_spec cart_rnd0 ''alice'' span0
          (snd (snd (emptyCartHandler record_error_spec cart_rnd0 ''alice'' span0 redis0))))) =
     ''{"user_id": "alice", "items_count": 0}''\<close>
proof -
  have up: "reachable redis0" and user: "''alice'' \<noteq> ''''"
    by (simp_all add: redis0_def)
  have count: "show_int (sint (added_quantity cart_rnd0 +
                 totalItems (other_fields (added_product cart_rnd0 ''OLJCESPC7Z'')
                               (cart_of redis0 ''alice'')) 0)) = ''4''"
    by (simp add: added_quantity_def added_product_def cart_rnd0_def rand_Intn_def cart_of_def
        redis0_def DAList.update.rep_eq DAList.empty.rep_eq other_fields_def json_Unmarshal_def
        show_int_def show_nat.simps)
  show ?thesis
    using cart_add_get_empty_get [OF up user, of record_error_spec cart_rnd0 "''OLJCESPC7Z''"
        span0 record_error_spec cart_rnd0 span0] up count
    by simp
qed

section \<open>Properties of the shipping service\<close>

lemma calculateQuoteLocally_result [simp]:
  "fst (calculateQuoteLocally sp count r) = (599 + count * 150 + rand_Intn 300 r, None)"
  by (simp add: calculateQuoteLocally_def Let_def)

lemma createQuoteFromCount_result:
  "fst (createQuoteFromCount RE env parent count r) = (599 + count * 150 + rand_Intn 300 r, None)"
  by (simp add: createQuoteFromCount_def Let_def split_beta split: option.splits response.splits)

text \<open>
  C9. \<open>createQuoteFromCount\<close> returns a nil error on every path: whether the request to
  the quote service cannot be built, the quote service is unreachable or it answers, the
  error is nil (in the first two cases the quote is computed locally). So the handler of
  \<open>/ship\<close> never takes its error branch: every request is answered 200 with a body that
  carries the tracking id and the cost.
\<close>

theorem ship_always_succeeds:
  \<open>snd (fst (createQuoteFromCount RE env parent count r)) = None \<and>
   fst (shipHandler RE env rn sp) =
     \<lparr>code = 200, content_type = None,
      body = ''{"tracking_id": "'' @ s_uuid rn @ ''", "cost": '' @ fmt_2f (ship_quote rn) @ ''}''\<rparr>\<close>
  by (simp add: createQuoteFromCount_result shipHandler_def Let_def split_beta ship_quote_def)

section \<open>Properties of the payment and fraud detection services\<close>

lemma handleCharge_failure:
  assumes "p_fail rn < 5 / 100"
  shows \<open>fst (handleCharge rn parent baggage) =
           \<lparr>code = 402, content_type = None,
            body = ''{"error":"Payment failed: insufficient funds"}''\<rparr>\<close>
    and "sp_status (fst (snd (handleCharge rn parent baggage))) = Error"
    and "sp_kind (fst (snd (handleCharge rn parent baggage))) = SpanKindServer"
  using assms
  by (simp_all add: handleCharge_def Let_def SetStatus_def AddEvent_def End_def recordException_def
      record_error_spec_def SetAttributes_def tracer_Start_def split: option.splits)

lemma handleFraudConsume_result:
  \<open>fst (handleFraudConsume rn sp) =
     \<lparr>code = 200, content_type = None,
      body = ''{"is_fraud":'' @ (if f_draw rn < 2 / 100 then ''true'' else ''false'') @
             '',"status":"scanned"}'' @ [CHR 0x0A]\<rparr>\<close>
  "sp_status (fst (snd (handleFraudConsume rn sp))) = sp_status sp"
  "sp_status (snd (snd (handleFraudConsume rn sp))) = Unset"
  by (simp_all add: handleFraudConsume_def detectFraud_def Let_def SetStatus_def AddEvent_def End_def
      SetAttributes_def tracer_Start_def)

text \<open>
  C7, as the specification states it, fails for fraud detection: with a draw of 0.01, which
  is below 0.02, the order is flagged as fraud, and the endpoint answers 200 and sets no
  error status, neither on its server span nor on the span of \<open>detectFraud\<close>.
\<close>

theorem fraud_outcome_counterexample:
  \<open>f_draw fraud_rnd_hit < 2 / 100 \<and>
   fst (handleFraudConsume fraud_rnd_hit consume_span) =
     \<lparr>code = 200, content_type = None,
      body = ''{"is_fraud":true,"status":"scanned"}'' @ [CHR 0x0A]\<rparr> \<and>
   sp_status (fst (snd (handleFraudConsume fraud_rnd_hit consume_span))) \<noteq> Error \<and>
   sp_status (snd (snd (handleFraudConsume fraud_rnd_hit consume_span))) \<noteq> Error\<close>
proof -
  have "f_draw fraud_rnd_hit < 2 / 100"
    by (simp add: fraud_rnd_hit_def)
  then show ?thesis
    by (simp add: handleFraudConsume_result consume_span_def tracer_Start_def)
qed

text \<open>
  C7, amended. For every payment charge whose random outcome is a failure (the draw is
  below 0.05), the endpoint sets the status of its server span to error and answers with
  the non-2xx status 402 and an error body. The random outcome of fraud detection (a draw
  below 0.02) is a verdict, not a failure: whatever the draw, the endpoint answers 200 with
  the verdict in \<open>is_fraud\<close>, leaves the status of its server span as it found it and
  leaves the status of the span of \<open>detectFraud\<close> unset.
\<close>

theorem random_failure_outcomes:
  \<open>(p_fail rn < 5 / 100 \<longrightarrow>
      fst (handleCharge rn parent baggage) =
        \<lparr>code = 402, content_type = None,
         body = ''{"error":"Payment failed: insufficient funds"}''\<rparr> \<and>
      sp_kind (fst (snd (handleCharge rn parent baggage))) = SpanKindServer \<and>
      sp_status (fst (snd (handleCharge rn parent baggage))) = Error) \<and>
   fst (handleFraudConsume frn sp) =
     \<lparr>code = 200, content_type = None,
      body = ''{"is_fraud":'' @ (if f_draw frn < 2 / 100 then ''true'' else ''false'') @
             '',"status":"scanned"}'' @ [CHR 0x0A]\<rparr> \<and>
   sp_status (fst (snd (handleFraudConsume frn sp))) = sp_status sp \<and>
   sp_status (snd (snd (handleFraudConsume frn sp))) = Unset\<close>
  by (simp add: handleCharge_failure handleFraudConsume_result)

theorem random_failure_outcomes_witness:
  "p_fail pay_rnd_fail < 5 / 100 \<and>
   code (fst (handleCharge pay_rnd_fail None None)) = 402 \<and>
   sp_status (fst (snd (handleCharge pay_rnd_fail None None))) = Error"
proof -
  have low: "p_fail pay_rnd_fail < 5 / 100"
    by (simp add: pay_rnd_fail_def)
  with random_failure_outcomes [of pay_rnd_fail None None fraud_rnd_hit consume_span]
  show ?thesis by simp
qed

section \<open>Properties of the routing tables\<close>

lemma frontend_health:
  "frontend_server hr cfg m ''/health'' q parent exn outcome = (health_js, [])"
  by (simp add: frontend_server_def)

lemma mux_health:
  "checkout_mux ''/health'' = Reply health_go"
  "fraud_mux ''/health'' = Reply health_go"
  "accounting_mux ''/health'' = Reply health_go"
  "cart_mux ''/health'' = Reply (http_Error ''404 page not found'' 404)"
  "shipping_mux ''/health'' = Reply (http_Error ''404 page not found'' 404)"
  "product_mux ''/health'' = Reply (http_Error ''404 page not found'' 404)"
  "currency_mux ''/health'' = Reply (http_Error ''404 page not found'' 404)"
  by (simp_all add: checkout_mux_def fraud_mux_def accounting_mux_def cart_mux_def shipping_mux_def
      product_mux_def currency_mux_def ServeMux_def subtree_def)

lemma js_health:
  "payment_server rn parent baggage m ''/health'' = js_not_found"
  "email_route m ''/health'' = Reply js_not_found"
  "ad_route m ''/health'' = Reply js_not_found"
  "browser_route ''/health'' = Reply health_js"
  by (simp_all add: payment_server_def email_route_def ad_route_def browser_route_def)

text \<open>
  C8, as the specification states it, fails: the payment server has no \<open>/health\<close> route.
  It serves \<open>POST /charge\<close> only and answers \<open>GET /health\<close> with 404.
\<close>

theorem health_route_counterexample:
  \<open>payment_server pay_rnd_fail None None ''GET'' ''/health'' =
     \<lparr>code = 404, content_type = None, body = ''{"error":"Not found"}''\<rparr>\<close>
  by (simp add: js_health js_not_found_def)

text \<open>
  C8, amended. The frontend, the browser simulator, the checkout server, the fraud
  detection server and the accounting server expose a \<open>/health\<close> route that returns the
  fixed payload \<open>{"status":"ok"}\<close> with status 200. The payment, email and ad servers and
  the cart, shipping, product catalog and currency servers register no such route and
  answer \<open>/health\<close> with 404.
\<close>

theorem health_routes:
  \<open>fst (frontend_server hr cfg m ''/health'' q parent exn outcome) =
     \<lparr>code = 200, content_type = Some ''application/json'', body = ''{"status":"ok"}''\<rparr> \<and>
   browser_route ''/health'' =
     Reply \<lparr>code = 200, content_type = Some ''application/json'', body = ''{"status":"ok"}''\<rparr> \<and>
   checkout_mux ''/health'' =
     Reply \<lparr>code = 200, content_type = None, body = ''{"status":"ok"}''\<rparr> \<and>
   fraud_mux ''/health'' =
     Reply \<lparr>code = 200, content_type = None, body = ''{"status":"ok"}''\<rparr> \<and>
   accounting_mux ''/health'' =
     Reply \<lparr>code = 200, content_type = None, body = ''{"status":"ok"}''\<rparr> \<and>
   code (payment_server rn pparent baggage pm ''/health'') = 404 \<and>
   email_route em ''/health'' = Reply js_not_found \<and> code js_not_found = 404 \<and>
   ad_route am ''/health'' = Reply js_not_found \<and>
   cart_mux ''/health'' = Reply (http_Error ''404 page not found'' 404) \<and>
   shipping_mux ''/health'' = Reply (http_Error ''404 page not found'' 404) \<and>
   product_mux ''/health'' = Reply (http_Error ''404 page not found'' 404) \<and>
   currency_mux ''/health'' = Reply (http_Error ''404 page not found'' 404) \<and>
   code (http_Error ''404 page not found'' 404) = 404\<close>
  by (simp add: frontend_health mux_health js_health health_js_def health_go_def js_not_found_def
      http_Error_def)

section \<open>Properties of the frontend\<close>










subsection \<open>Node on the URLs of the handler\<close>







subsection \<open>Claim about the frontend\<close>




section \<open>Properties of the context propagator\<close>

lemma digit_val_hex_digit: "d < 16 \<Longrightarrow> digit_val (hex_digit d) = Some d"
proof -
  have "\<forall>d \<in> set [0..<16]. digit_val (hex_digit d) = Some d"
    by code_simp
  then show "d < 16 \<Longrightarrow> digit_val (hex_digit d) = Some d"
    by simp
qed

lemma hex_digit_not_dash: "d < 16 \<Longrightarrow> hex_digit d \<noteq> CHR ''-''"
proof -
  have "\<forall>d \<in> set [0..<16]. hex_digit d \<noteq> CHR ''-''"
    by code_simp
  then show "d < 16 \<Longrightarrow> hex_digit d \<noteq> CHR ''-''"
    by simp
qed

lemma length_hex [simp]: "length (hex k n) = k"
  by (induction k arbitrary: n) simp_all

lemma dash_not_in_hex: "CHR ''-'' \<notin> set (hex k n)"
proof (induction k arbitrary: n)
  case 0
  show ?case by simp
next
  case (Suc k)
  have "hex_digit (n mod 16) \<noteq> CHR ''-''"
    by (rule hex_digit_not_dash) simp
  with Suc show ?case by simp
qed

lemma unhex_snoc:
  "unhex (cs @ [c]) acc =
     (case unhex cs acc of
        None \<Rightarrow> None
      | Some a \<Rightarrow> (case digit_val c of None \<Rightarrow> None | Some d \<Rightarrow> Some (a * 16 + d)))"
  by (induction cs arbitrary: acc) (simp_all split: option.splits)

lemma unhex_hex: "unhex (hex k n) 0 = Some (n mod 16 ^ k)"
proof (induction k arbitrary: n)
  case 0
  show ?case by simp
next
  case (Suc k)
  have "n mod (16 * 16 ^ k) = 16 * (n div 16 mod 16 ^ k) + n mod 16"
    by (simp add: mod_mult2_eq)
  then show ?case
    by (simp add: unhex_snoc Suc digit_val_hex_digit)
qed

lemma split_on_last: "c \<notin> set w \<Longrightarrow> split_on c w = [w]"
  by (induction w) auto

lemma split_on_field: "c \<notin> set w \<Longrightarrow> split_on c (w @ c # rest) = w # split_on c rest"
  by (induction w) auto

lemma split_on_join:
  "ws \<noteq> [] \<Longrightarrow> \<forall>w \<in> set ws. c \<notin> set w \<Longrightarrow> split_on c (join c ws) = ws"
proof (induction c ws rule: join.induct)
  case (1 c)
  then show ?case by simp
next
  case (2 c w)
  then show ?case by (simp add: split_on_last)
next
  case (3 c w v ws)
  then show ?case by (simp add: split_on_field)
qed

lemma digit_val_literals: "digit_val (CHR ''0'') = Some 0" "digit_val (CHR ''1'') = Some 1"
  by code_simp+

lemma unhex_id:
  fixes w :: "'a::len word"
  assumes "LENGTH('a) = 4 * k"
  shows "unhex (hex k (unat w)) 0 = Some (unat w)"
proof -
  have "unat w < 2 ^ LENGTH('a)"
    by (rule unsigned_less)
  also have "(2::nat) ^ LENGTH('a) = 16 ^ k"
    by (simp add: assms power_mult)
  finally show ?thesis
    by (simp add: unhex_hex)
qed

lemma parse_render_traceparent:
  assumes "tc_trace_id c \<noteq> 0" and "tc_span_id c \<noteq> 0"
  shows "parse_traceparent (render_traceparent c) = Some (tc_trace_id c, tc_span_id c, tc_sampled c)"
proof -
  have split: "split_on (CHR ''-'') (render_traceparent c) =
      [''00'', hex 32 (unat (tc_trace_id c)), hex 16 (unat (tc_span_id c)),
       if tc_sampled c then ''01'' else ''00'']"
    unfolding render_traceparent_def
    by (rule split_on_join) (auto simp: dash_not_in_hex)
  have ids: "unhex (hex 32 (unat (tc_trace_id c))) 0 = Some (unat (tc_trace_id c))"
    "unhex (hex 16 (unat (tc_span_id c))) 0 = Some (unat (tc_span_id c))"
    by (simp_all add: unhex_id)
  show ?thesis
    using assms
    by (simp add: parse_traceparent_def split ids digit_val_literals unat_0_iff)
qed

lemma parse_member_render:
  assumes "valid_member kv"
  shows "parse_member (render_member kv) = Some kv"
proof -
  obtain k v where kv: "kv = (k, v)" by (cases kv)
  with assms have k: "k \<noteq> []" "CHR ''='' \<notin> set k"
    by (simp_all add: valid_member_def)
  then have "\<And>x. x \<in> set k \<Longrightarrow> x \<noteq> CHR ''=''"
    by auto
  then have "takeWhile (\<lambda>x. x \<noteq> CHR ''='') (k @ CHR ''='' # v) = k"
    "dropWhile (\<lambda>x. x \<noteq> CHR ''='') (k @ CHR ''='' # v) = CHR ''='' # v"
    by simp_all
  with k kv show ?thesis
    by (simp add: parse_member_def render_member_def)
qed

lemma render_member_comma_free:
  "valid_member kv \<Longrightarrow> CHR '','' \<notin> set (render_member kv)"
  by (auto simp: valid_member_def render_member_def)

lemma join_nonempty: "w \<noteq> [] \<Longrightarrow> join c (w # ws) \<noteq> []"
  by (cases ws) simp_all

lemma parse_members:
  "list_all valid_member bs \<Longrightarrow> List.map_filter parse_member (map render_member bs) = bs"
  by (induction bs) (simp_all add: parse_member_render)

lemma parse_baggage_render:
  assumes "bs \<noteq> []" and "list_all valid_member bs"
  shows "parse_baggage (join (CHR '','') (map render_member bs)) = bs"
proof -
  from assms(1) obtain b rest where bs: "bs = b # rest"
    by (cases bs) auto
  have "render_member b \<noteq> []"
    by (simp add: render_member_def)
  then have nonempty: "join (CHR '','') (map render_member bs) \<noteq> []"
    by (simp add: bs join_nonempty)
  have "split_on (CHR '','') (join (CHR '','') (map render_member bs)) = map render_member bs"
    using assms by (intro split_on_join) (auto simp: list_all_iff render_member_comma_free)
  with nonempty assms(2) show ?thesis
    by (simp add: parse_baggage_def parse_members)
qed

text \<open>
  C6. For every valid trace context (identifiers not zero, baggage members that the
  header can carry), extracting from the headers that \<open>inject\<close> produces gives back the
  same context: the same trace id, span id and sampled flag, and the same baggage
  entries, here even in the same order. The fresh root context that \<open>extract\<close> falls back
  on plays no part.
\<close>

theorem extract_inject_roundtrip:
  assumes "valid_context c"
  shows "extract_ctx fresh (inject c) = c"
proof -
  from assms have ids: "tc_trace_id c \<noteq> 0" "tc_span_id c \<noteq> 0"
    and bag: "list_all valid_member (tc_baggage c)"
    by (simp_all add: valid_context_def)
  have "extract_ctx fresh (inject c) =
          \<lparr>tc_trace_id = tc_trace_id c, tc_span_id = tc_span_id c, tc_sampled = tc_sampled c,
           tc_baggage = tc_baggage c\<rparr>"
    using bag
    by (simp add: extract_ctx_def inject_def parse_render_traceparent [OF ids] parse_baggage_render)
  then show ?thesis
    by simp
qed

theorem extract_inject_roundtrip_witness:
  "valid_context ctx0 \<and> extract_ctx fresh0 (inject ctx0) = ctx0"
proof -
  have valid: "valid_context ctx0"
    by (simp add: valid_context_def ctx0_def valid_member_def)
  with extract_inject_roundtrip [OF valid, of fresh0] show ?thesis
    by simp
qed

end
